theory Spec2Isabelle
  imports Main
begin

section \<open>Values that cross the bridge\<close>

text \<open>
  The native module and the JavaScript layer exchange plain dictionaries. Their
  content is never inspected by \<^verbatim>\<open>RTCPeerConnection.js\<close>, so a dictionary is an
  opaque text here. A caller-supplied continuation is known by its identity only.
\<close>

type_synonym json = string

type_synonym fn = nat

record track_info =
  trackId :: string
  kind :: string

text \<open>
  Modelled from the spec: the classes \<^verbatim>\<open>MediaStreamTrack\<close>, \<^verbatim>\<open>MediaStream\<close>,
  \<^verbatim>\<open>RTCSessionDescription\<close> and \<^verbatim>\<open>RTCIceCandidate\<close> are imported from sibling
  files that are not part of the sources at hand. A Track is built from the event
  payload, a Stream is an identity with an ordered collection of Tracks, a session
  description and a candidate wrap their wire shape. \<^verbatim>\<open>new C(x)\<close> is the constructor
  of the datatype applied to \<open>x\<close>; \<^verbatim>\<open>toJSON\<close> gives the wire shape back.
\<close>

datatype MediaStreamTrack = MediaStreamTrack track_info

fun track_id :: "MediaStreamTrack \<Rightarrow> string" where
  "track_id (MediaStreamTrack info) = trackId info"

record MediaStream =
  streamId :: string
  tracks :: "MediaStreamTrack list"

definition MediaStream_new :: "string \<Rightarrow> MediaStream" where
  "MediaStream_new sid = \<lparr>streamId = sid, tracks = []\<rparr>"

definition addTrack :: "MediaStream \<Rightarrow> MediaStreamTrack \<Rightarrow> MediaStream" where
  "addTrack stream track = stream\<lparr>tracks := tracks stream @ [track]\<rparr>"

datatype RTCSessionDescription = RTCSessionDescription json

fun RTCSessionDescription_toJSON :: "RTCSessionDescription \<Rightarrow> json" where
  "RTCSessionDescription_toJSON (RTCSessionDescription info) = info"

datatype RTCIceCandidate = RTCIceCandidate json

fun RTCIceCandidate_toJSON :: "RTCIceCandidate \<Rightarrow> json" where
  "RTCIceCandidate_toJSON (RTCIceCandidate info) = info"

section \<open>Events\<close>

text \<open>
  The seven names under which \<^verbatim>\<open>_registerEvents\<close> listens on the shared
  \<^verbatim>\<open>DeviceEventEmitter\<close>, and the event object the native side emits under each
  name: every event carries the identity \<^verbatim>\<open>ev.id\<close> of the connection it is meant
  for, then the payload the listener of that name reads. The three state values are
  texts: the listeners store whatever arrives.
\<close>

datatype event_name =
    PeerConnectionOnRenegotiationNeeded
  | PeerConnectionIceConnectionChanged
  | PeerConnectionSignalingStateChanged
  | PeerConnectionAddedStream
  | PeerConnectionRemovedStream
  | PeerConnectionGotICECandidate
  | PeerConnectionIceGatheringChanged

datatype device_event =
    OnRenegotiationNeeded int
  | IceConnectionChanged int string
  | SignalingStateChanged int string
  | AddedStream int string "track_info list"
  | RemovedStream int string
  | GotICECandidate int json
  | IceGatheringChanged int string

fun name_of :: "device_event \<Rightarrow> event_name" where
  "name_of (OnRenegotiationNeeded i) = PeerConnectionOnRenegotiationNeeded"
| "name_of (IceConnectionChanged i st) = PeerConnectionIceConnectionChanged"
| "name_of (SignalingStateChanged i st) = PeerConnectionSignalingStateChanged"
| "name_of (AddedStream i sid ts) = PeerConnectionAddedStream"
| "name_of (RemovedStream i sid) = PeerConnectionRemovedStream"
| "name_of (GotICECandidate i c) = PeerConnectionGotICECandidate"
| "name_of (IceGatheringChanged i st) = PeerConnectionIceGatheringChanged"

fun ev_id :: "device_event \<Rightarrow> int" where
  "ev_id (OnRenegotiationNeeded i) = i"
| "ev_id (IceConnectionChanged i st) = i"
| "ev_id (SignalingStateChanged i st) = i"
| "ev_id (AddedStream i sid ts) = i"
| "ev_id (RemovedStream i sid) = i"
| "ev_id (GotICECandidate i c) = i"
| "ev_id (IceGatheringChanged i st) = i"

text \<open>
  Modelled from the spec: the classes \<^verbatim>\<open>RTCEvent\<close>, \<^verbatim>\<open>MediaStreamEvent\<close> and
  \<^verbatim>\<open>RTCIceCandidateEvent\<close> are imported from sibling files that are not part of
  the sources at hand. An event given to \<^verbatim>\<open>dispatchEvent\<close> is its type and the
  payload it was constructed with: \<^verbatim>\<open>new RTCEvent(type)\<close>,
  \<^verbatim>\<open>new MediaStreamEvent(type, {stream})\<close> where the stream may be
  \<^verbatim>\<open>undefined\<close>, and \<^verbatim>\<open>new RTCIceCandidateEvent(type, {candidate})\<close>.
\<close>

datatype event =
    RTCEvent string
  | MediaStreamEvent string "MediaStream option"
  | RTCIceCandidateEvent string RTCIceCandidate

section \<open>The connection object and the world around it\<close>

text \<open>
  A subscription is the handle \<^verbatim>\<open>addListener\<close> returns: the name it listens
  under and the connection object its arrow function closes over (\<^verbatim>\<open>this\<close>).
  Objects are referred to by their index in the store \<open>heap\<close>; the constructor
  appends to the store and nothing is ever taken out of it, so a reference that a
  closure or a caller holds is below the length of the store.
\<close>

record subscription =
  eventName :: event_name
  listener_this :: nat

record RTCPeerConnection =
  localDescription :: "RTCSessionDescription option"
  remoteDescription :: "RTCSessionDescription option"
  signalingState :: string
  iceGatheringState :: string
  iceConnectionState :: string
  peerConnectionId :: int
  remoteStreams :: "MediaStream list"
  subscriptions :: "subscription list"

text \<open>
  The completion callbacks the methods pass to the native module, as closures:
  the variables each arrow function captures.
\<close>

datatype callback =
    CreateOfferCb "fn option" "fn option"
  | CreateAnswerCb "fn option" "fn option"
  | SetLocalDescriptionCb nat RTCSessionDescription "fn option" "fn option"
  | SetRemoteDescriptionCb nat RTCSessionDescription "fn option" "fn option"
  | AddICECandidateCb "fn option" "fn option"
  | GetStatsCb "fn option"

datatype track_arg = TrackId string | MinusOne

datatype native_call =
    PeerConnectionInit json int
  | PeerConnectionAddStream string int
  | PeerConnectionRemoveStream string int
  | PeerConnectionCreateOffer int callback
  | PeerConnectionCreateAnswer int callback
  | PeerConnectionSetLocalDescription json int callback
  | PeerConnectionSetRemoteDescription json int callback
  | PeerConnectionAddICECandidate json int callback
  | PeerConnectionGetStats track_arg int callback
  | PeerConnectionClose int

datatype arg = ArgDescription RTCSessionDescription | ArgData json

datatype js_error = TypeError

record notification =
  target :: nat
  event :: event
  observed :: RTCPeerConnection

text \<open>
  The world: the module-level counter, the connection objects, the listeners
  registered on \<^verbatim>\<open>DeviceEventEmitter\<close> (oldest first), whether the native module
  has the optional method \<^verbatim>\<open>peerConnectionGetStats\<close>, and four traces of what
  leaves the class: the calls made on \<^verbatim>\<open>WebRTCModule\<close>, the events given to
  \<^verbatim>\<open>dispatchEvent\<close> (each with its target and the fields of the target as a
  subscriber reads them at that moment), the caller's continuations that were
  invoked with their arguments, and the texts given to \<^verbatim>\<open>console.warn\<close>.
  The subscribers of a connection and the caller's continuations are code outside
  the class: the traces record that they were reached and with what, not what
  they do in turn.
\<close>

record world =
  nextPeerConnectionId :: int
  heap :: "RTCPeerConnection list"
  emitter :: "subscription list"
  hasGetStats :: bool
  native_calls :: "native_call list"
  dispatched :: "notification list"
  called :: "(fn \<times> arg list) list"
  warnings :: "string list"

definition init :: "bool \<Rightarrow> world" where
  "init stats = \<lparr>nextPeerConnectionId = 0, heap = [], emitter = [], hasGetStats = stats,
     native_calls = [], dispatched = [], called = [], warnings = []\<rparr>"

definition update_this :: "nat \<Rightarrow> (RTCPeerConnection \<Rightarrow> RTCPeerConnection) \<Rightarrow> world \<Rightarrow> world" where
  "update_this this f w = w\<lparr>heap := (heap w)[this := f (heap w ! this)]\<rparr>"

definition WebRTCModule :: "native_call \<Rightarrow> world \<Rightarrow> world" where
  "WebRTCModule c w = w\<lparr>native_calls := native_calls w @ [c]\<rparr>"

definition dispatchEvent :: "nat \<Rightarrow> event \<Rightarrow> world \<Rightarrow> world" where
  "dispatchEvent this e w =
     w\<lparr>dispatched := dispatched w @ [\<lparr>target = this, event = e, observed = heap w ! this\<rparr>]\<rparr>"

definition console_warn :: "string \<Rightarrow> world \<Rightarrow> world" where
  "console_warn msg w = w\<lparr>warnings := warnings w @ [msg]\<rparr>"

text \<open>
  Calling a continuation. \<^verbatim>\<open>f(args)\<close> on a continuation the caller left out is a
  call of \<^verbatim>\<open>undefined\<close>: a TypeError, raised after everything the callback did
  before. \<^verbatim>\<open>f && f(args)\<close> skips the call instead.
\<close>

definition call_fn :: "fn option \<Rightarrow> arg list \<Rightarrow> world \<Rightarrow> js_error option \<times> world" where
  "call_fn f args w =
     (case f of None \<Rightarrow> (Some TypeError, w)
      | Some k \<Rightarrow> (None, w\<lparr>called := called w @ [(k, args)]\<rparr>))"

definition call_guarded :: "fn option \<Rightarrow> arg list \<Rightarrow> world \<Rightarrow> js_error option \<times> world" where
  "call_guarded f args w =
     (case f of None \<Rightarrow> (None, w)
      | Some k \<Rightarrow> (None, w\<lparr>called := called w @ [(k, args)]\<rparr>))"

section \<open>Registering and unregistering the listeners\<close>

definition event_names :: "event_name list" where
  "event_names = [PeerConnectionOnRenegotiationNeeded, PeerConnectionIceConnectionChanged,
     PeerConnectionSignalingStateChanged, PeerConnectionAddedStream,
     PeerConnectionRemovedStream, PeerConnectionGotICECandidate,
     PeerConnectionIceGatheringChanged]"

definition all_subscriptions :: "nat \<Rightarrow> subscription list" where
  "all_subscriptions this = map (\<lambda>n. \<lparr>eventName = n, listener_this = this\<rparr>) event_names"

definition registerEvents :: "nat \<Rightarrow> world \<Rightarrow> world" where
  "registerEvents this w =
     update_this this (\<lambda>pc. pc\<lparr>subscriptions := all_subscriptions this\<rparr>)
       (w\<lparr>emitter := emitter w @ all_subscriptions this\<rparr>)"

text \<open>
  \<^verbatim>\<open>this._subscriptions.forEach(e => e.remove()); this._subscriptions = []\<close>:
  each handle takes its own registration off the emitter.
\<close>

definition unregisterEvents :: "nat \<Rightarrow> world \<Rightarrow> world" where
  "unregisterEvents this w =
     update_this this (\<lambda>pc. pc\<lparr>subscriptions := []\<rparr>)
       (w\<lparr>emitter := foldl (\<lambda>em s. remove1 s em) (emitter w) (subscriptions (heap w ! this))\<rparr>)"

section \<open>The constructor and the methods\<close>

definition RTCPeerConnection_new :: "json \<Rightarrow> world \<Rightarrow> nat \<times> world" where
  "RTCPeerConnection_new configuration w =
     (let this = length (heap w);
          pc = \<lparr>localDescription = None, remoteDescription = None,
                signalingState = ''stable'', iceGatheringState = ''new'',
                iceConnectionState = ''new'',
                peerConnectionId = nextPeerConnectionId w,
                remoteStreams = [], subscriptions = []\<rparr>;
          w1 = w\<lparr>heap := heap w @ [pc], nextPeerConnectionId := nextPeerConnectionId w + 1\<rparr>;
          w2 = WebRTCModule (PeerConnectionInit configuration (peerConnectionId pc)) w1
      in (this, registerEvents this w2))"

definition addStream :: "nat \<Rightarrow> MediaStream \<Rightarrow> world \<Rightarrow> js_error option \<times> world" where
  "addStream this stream w =
     (None, WebRTCModule (PeerConnectionAddStream (streamId stream) (peerConnectionId (heap w ! this))) w)"

definition removeStream :: "nat \<Rightarrow> MediaStream \<Rightarrow> world \<Rightarrow> js_error option \<times> world" where
  "removeStream this stream w =
     (None, WebRTCModule (PeerConnectionRemoveStream (streamId stream) (peerConnectionId (heap w ! this))) w)"

definition createOffer :: "nat \<Rightarrow> fn option \<Rightarrow> fn option \<Rightarrow> json \<Rightarrow> world \<Rightarrow> js_error option \<times> world" where
  "createOffer this success failure constraints w =
     (None, WebRTCModule (PeerConnectionCreateOffer (peerConnectionId (heap w ! this))
        (CreateOfferCb success failure)) w)"

definition createAnswer :: "nat \<Rightarrow> fn option \<Rightarrow> fn option \<Rightarrow> json \<Rightarrow> world \<Rightarrow> js_error option \<times> world" where
  "createAnswer this success failure constraints w =
     (None, WebRTCModule (PeerConnectionCreateAnswer (peerConnectionId (heap w ! this))
        (CreateAnswerCb success failure)) w)"

definition setLocalDescription ::
  "nat \<Rightarrow> RTCSessionDescription \<Rightarrow> fn option \<Rightarrow> fn option \<Rightarrow> json \<Rightarrow> world \<Rightarrow> js_error option \<times> world" where
  "setLocalDescription this sessionDescription success failure constraints w =
     (None, WebRTCModule (PeerConnectionSetLocalDescription
        (RTCSessionDescription_toJSON sessionDescription) (peerConnectionId (heap w ! this))
        (SetLocalDescriptionCb this sessionDescription success failure)) w)"

definition setRemoteDescription ::
  "nat \<Rightarrow> RTCSessionDescription \<Rightarrow> fn option \<Rightarrow> fn option \<Rightarrow> world \<Rightarrow> js_error option \<times> world" where
  "setRemoteDescription this sessionDescription success failure w =
     (None, WebRTCModule (PeerConnectionSetRemoteDescription
        (RTCSessionDescription_toJSON sessionDescription) (peerConnectionId (heap w ! this))
        (SetRemoteDescriptionCb this sessionDescription success failure)) w)"

definition addIceCandidate ::
  "nat \<Rightarrow> RTCIceCandidate \<Rightarrow> fn option \<Rightarrow> fn option \<Rightarrow> world \<Rightarrow> js_error option \<times> world" where
  "addIceCandidate this candidate success failure w =
     (None, WebRTCModule (PeerConnectionAddICECandidate
        (RTCIceCandidate_toJSON candidate) (peerConnectionId (heap w ! this))
        (AddICECandidateCb success failure)) w)"

definition getStats_warning :: string where
  "getStats_warning = ''RTCPeerConnection getStats doesn'' @ [CHR 0x27] @ ''t support''"

definition getStats ::
  "nat \<Rightarrow> MediaStreamTrack option \<Rightarrow> fn option \<Rightarrow> fn option \<Rightarrow> world \<Rightarrow> js_error option \<times> world" where
  "getStats this track success failure w =
     (if hasGetStats w
      then (None, WebRTCModule (PeerConnectionGetStats
              (case track of None \<Rightarrow> MinusOne | Some t \<Rightarrow> TrackId (track_id t))
              (peerConnectionId (heap w ! this)) (GetStatsCb success)) w)
      else (None, console_warn getStats_warning w))"

definition close :: "nat \<Rightarrow> world \<Rightarrow> js_error option \<times> world" where
  "close this w = (None, WebRTCModule (PeerConnectionClose (peerConnectionId (heap w ! this))) w)"

section \<open>The completion callbacks\<close>

text \<open>
  What each arrow function does when the native module calls it back with
  \<^verbatim>\<open>(successful, data)\<close>. The callback of \<^verbatim>\<open>getStats\<close> takes the report alone; it
  is the \<open>data\<close> here and \<open>successful\<close> is not read.
\<close>

fun invoke :: "callback \<Rightarrow> bool \<Rightarrow> json \<Rightarrow> world \<Rightarrow> js_error option \<times> world" where
  "invoke (CreateOfferCb success failure) successful data w =
     (if successful then call_fn success [ArgDescription (RTCSessionDescription data)] w
      else call_fn failure [ArgData data] w)"
| "invoke (CreateAnswerCb success failure) successful data w =
     (if successful then call_fn success [ArgDescription (RTCSessionDescription data)] w
      else call_fn failure [ArgData data] w)"
| "invoke (SetLocalDescriptionCb this sessionDescription success failure) successful data w =
     (if successful
      then call_fn success []
             (update_this this (\<lambda>pc. pc\<lparr>localDescription := Some sessionDescription\<rparr>) w)
      else call_fn failure [ArgData data] w)"
| "invoke (SetRemoteDescriptionCb this sessionDescription success failure) successful data w =
     (if successful
      then call_fn success []
             (update_this this (\<lambda>pc. pc\<lparr>remoteDescription := Some sessionDescription\<rparr>) w)
      else call_fn failure [ArgData data] w)"
| "invoke (AddICECandidateCb success failure) successful data w =
     (if successful then call_guarded success [] w else call_guarded failure [] w)"
| "invoke (GetStatsCb success) successful data w = call_guarded success [ArgData data] w"

section \<open>The listeners\<close>

text \<open>
  \<^verbatim>\<open>Array.prototype.indexOf\<close> and \<^verbatim>\<open>splice(index, 1)\<close>. The stream looked for is the
  one \<^verbatim>\<open>find\<close> returned, the first element with the wanted identity, so the first
  element equal to it is that element itself.
\<close>

fun indexOf :: "'a list \<Rightarrow> 'a \<Rightarrow> nat option" where
  "indexOf [] x = None"
| "indexOf (y # ys) x = (if y = x then Some 0 else map_option Suc (indexOf ys x))"

definition splice1 :: "nat \<Rightarrow> 'a list \<Rightarrow> 'a list" where
  "splice1 index xs = take index xs @ drop (Suc index) xs"

text \<open>
  The body of the arrow function registered under the name of the event, run with
  its \<^verbatim>\<open>this\<close>. Every one starts with the identity test and returns at once on
  another connection's event.
\<close>

fun listener :: "nat \<Rightarrow> device_event \<Rightarrow> world \<Rightarrow> world" where
  "listener this (OnRenegotiationNeeded i) w =
     (if i \<noteq> peerConnectionId (heap w ! this) then w
      else dispatchEvent this (RTCEvent ''negotiationneeded'') w)"
| "listener this (IceConnectionChanged i st) w =
     (if i \<noteq> peerConnectionId (heap w ! this) then w
      else let w1 = update_this this (\<lambda>pc. pc\<lparr>iceConnectionState := st\<rparr>) w;
               w2 = dispatchEvent this (RTCEvent ''iceconnectionstatechange'') w1
           in if st = ''closed'' then unregisterEvents this w2 else w2)"
| "listener this (SignalingStateChanged i st) w =
     (if i \<noteq> peerConnectionId (heap w ! this) then w
      else let w1 = update_this this (\<lambda>pc. pc\<lparr>signalingState := st\<rparr>) w
           in dispatchEvent this (RTCEvent ''signalingstatechange'') w1)"
| "listener this (AddedStream i sid ts) w =
     (if i \<noteq> peerConnectionId (heap w ! this) then w
      else let stream = foldl addTrack (MediaStream_new sid) (map MediaStreamTrack ts);
               w1 = update_this this (\<lambda>pc. pc\<lparr>remoteStreams := remoteStreams pc @ [stream]\<rparr>) w
           in dispatchEvent this (MediaStreamEvent ''addstream'' (Some stream)) w1)"
| "listener this (RemovedStream i sid) w =
     (if i \<noteq> peerConnectionId (heap w ! this) then w
      else let stream = find (\<lambda>s. streamId s = sid) (remoteStreams (heap w ! this));
               w1 = (case stream of None \<Rightarrow> w
                     | Some s \<Rightarrow>
                        (case indexOf (remoteStreams (heap w ! this)) s of None \<Rightarrow> w
                         | Some index \<Rightarrow>
                            update_this this
                              (\<lambda>pc. pc\<lparr>remoteStreams := splice1 index (remoteStreams pc)\<rparr>) w))
           in dispatchEvent this (MediaStreamEvent ''removestream'' stream) w1)"
| "listener this (GotICECandidate i c) w =
     (if i \<noteq> peerConnectionId (heap w ! this) then w
      else dispatchEvent this (RTCIceCandidateEvent ''icecandidate'' (RTCIceCandidate c)) w)"
| "listener this (IceGatheringChanged i st) w =
     (if i \<noteq> peerConnectionId (heap w ! this) then w
      else let w1 = update_this this (\<lambda>pc. pc\<lparr>iceGatheringState := st\<rparr>) w
           in dispatchEvent this (RTCEvent ''icegatheringstatechange'') w1)"

section \<open>The shared emitter\<close>

text \<open>
  \<^verbatim>\<open>DeviceEventEmitter.emit(name, ev)\<close> of React Native: the listeners registered
  under the name when the emission starts are called in the order of their
  registration, and one that was removed in the meantime is passed over.
\<close>

fun deliver :: "subscription list \<Rightarrow> device_event \<Rightarrow> world \<Rightarrow> world" where
  "deliver [] ev w = w"
| "deliver (s # ss) ev w =
     deliver ss ev (if s \<in> set (emitter w) then listener (listener_this s) ev w else w)"

definition emit :: "device_event \<Rightarrow> world \<Rightarrow> world" where
  "emit ev w = deliver (filter (\<lambda>s. eventName s = name_of ev) (emitter w)) ev w"

fun emit_all :: "device_event list \<Rightarrow> world \<Rightarrow> world" where
  "emit_all [] w = w"
| "emit_all (ev # evs) w = emit_all evs (emit ev w)"

section \<open>Runs\<close>

text \<open>
  Everything that can happen to the world: a connection is constructed, a method is
  called on a connection, the native module calls a completion callback back, the
  native module emits an event. (\<^verbatim>\<open>createDataChannel\<close> only constructs an object
  of a class that is not part of the sources at hand and is left out.)
\<close>

datatype action =
    New json
  | AddStream nat MediaStream
  | RemoveStream nat MediaStream
  | CreateOffer nat "fn option" "fn option" json
  | CreateAnswer nat "fn option" "fn option" json
  | SetLocalDescription nat RTCSessionDescription "fn option" "fn option" json
  | SetRemoteDescription nat RTCSessionDescription "fn option" "fn option"
  | AddIceCandidate nat RTCIceCandidate "fn option" "fn option"
  | GetStats nat "MediaStreamTrack option" "fn option" "fn option"
  | Close nat
  | Callback callback bool json
  | Emit device_event

fun step :: "action \<Rightarrow> world \<Rightarrow> world" where
  "step (New configuration) w = snd (RTCPeerConnection_new configuration w)"
| "step (AddStream this stream) w = snd (addStream this stream w)"
| "step (RemoveStream this stream) w = snd (removeStream this stream w)"
| "step (CreateOffer this s f c) w = snd (createOffer this s f c w)"
| "step (CreateAnswer this s f c) w = snd (createAnswer this s f c w)"
| "step (SetLocalDescription this d s f c) w = snd (setLocalDescription this d s f c w)"
| "step (SetRemoteDescription this d s f) w = snd (setRemoteDescription this d s f w)"
| "step (AddIceCandidate this c s f) w = snd (addIceCandidate this c s f w)"
| "step (GetStats this t s f) w = snd (getStats this t s f w)"
| "step (Close this) w = snd (close this w)"
| "step (Callback cb successful data) w = snd (invoke cb successful data w)"
| "step (Emit ev) w = emit ev w"

fun run :: "action list \<Rightarrow> world \<Rightarrow> world" where
  "run [] w = w"
| "run (a # as) w = run as (step a w)"

text \<open>
  The worlds the class keeps itself in: no listener is registered twice, every
  registered listener belongs to a connection that exists, and the listeners
  registered for a connection are the handles the connection holds, all seven of
  them or none.
\<close>

definition consistent :: "world \<Rightarrow> bool" where
  "consistent w \<longleftrightarrow>
     distinct (emitter w) \<and>
     (\<forall>s \<in> set (emitter w). listener_this s < length (heap w)) \<and>
     (\<forall>r < length (heap w).
        (subscriptions (heap w ! r) = [] \<or> subscriptions (heap w ! r) = all_subscriptions r) \<and>
        filter (\<lambda>s. listener_this s = r) (emitter w) = subscriptions (heap w ! r))"

text \<open>What of the traces and of the emitter concerns one connection.\<close>

definition dispatched_to :: "nat \<Rightarrow> world \<Rightarrow> notification list" where
  "dispatched_to r w = filter (\<lambda>n. target n = r) (dispatched w)"

definition listening :: "nat \<Rightarrow> world \<Rightarrow> subscription list" where
  "listening r w = filter (\<lambda>s. listener_this s = r) (emitter w)"

definition view :: "nat \<Rightarrow> world \<Rightarrow> RTCPeerConnection \<times> notification list \<times> subscription list" where
  "view r w = (heap w ! r, dispatched_to r w, listening r w)"

text \<open>
  For the property on sequences of events: the state an event carries for the
  connection with identity \<open>i\<close>, the event after which that connection stops
  listening, the events of a sequence up to and including that one, and the value a
  field ends with when the carried values are written one after the other.
\<close>

fun carried_ice :: "int \<Rightarrow> device_event \<Rightarrow> string option" where
  "carried_ice i (IceConnectionChanged j st) = (if j = i then Some st else None)"
| "carried_ice i ev = None"

fun carried_signaling :: "int \<Rightarrow> device_event \<Rightarrow> string option" where
  "carried_signaling i (SignalingStateChanged j st) = (if j = i then Some st else None)"
| "carried_signaling i ev = None"

fun carried_gathering :: "int \<Rightarrow> device_event \<Rightarrow> string option" where
  "carried_gathering i (IceGatheringChanged j st) = (if j = i then Some st else None)"
| "carried_gathering i ev = None"

definition closes :: "int \<Rightarrow> device_event \<Rightarrow> bool" where
  "closes i ev \<longleftrightarrow> carried_ice i ev = Some ''closed''"

fun applied :: "int \<Rightarrow> device_event list \<Rightarrow> device_event list" where
  "applied i [] = []"
| "applied i (ev # evs) = (if closes i ev then [ev] else ev # applied i evs)"

fun latest :: "(device_event \<Rightarrow> string option) \<Rightarrow> string \<Rightarrow> device_event list \<Rightarrow> string" where
  "latest carried v [] = v"
| "latest carried v (ev # evs) =
     latest carried (case carried ev of None \<Rightarrow> v | Some v' \<Rightarrow> v') evs"

section \<open>Lemmas\<close>

subsection \<open>Removing handles\<close>

lemma unsubscribe_subset: "set (foldl (\<lambda>em s. remove1 s em) em xs) \<subseteq> set em"
proof (induction xs arbitrary: em)
  case Nil
  show ?case by simp
next
  case (Cons x xs)
  have "set (foldl (\<lambda>em s. remove1 s em) (remove1 x em) xs) \<subseteq> set (remove1 x em)"
    by (rule Cons.IH)
  also have "\<dots> \<subseteq> set em" by (rule set_remove1_subset)
  finally show ?case by simp
qed

lemma unsubscribe_filter:
  "distinct em \<Longrightarrow> foldl (\<lambda>em s. remove1 s em) em xs = filter (\<lambda>s. s \<notin> set xs) em"
proof (induction xs arbitrary: em)
  case Nil
  show ?case by simp
next
  case (Cons x xs)
  have r: "remove1 x em = filter (\<lambda>s. s \<noteq> x) em"
    using Cons.prems by (simp add: distinct_remove1_removeAll removeAll_filter_not_eq) metis
  have "distinct (remove1 x em)" using Cons.prems by simp
  then have "foldl (\<lambda>em s. remove1 s em) (remove1 x em) xs = filter (\<lambda>s. s \<notin> set xs) (remove1 x em)"
    by (rule Cons.IH)
  then show ?case by (simp add: r conj_commute)
qed

subsection \<open>Frame of the building blocks\<close>

lemma nth_update_field:
  assumes "\<And>x. g (f x) = g x"
  shows "g (xs[i := f (xs ! i)] ! j) = g (xs ! j)"
proof (cases "i < length xs")
  case True
  then show ?thesis using assms by (simp add: nth_list_update)
next
  case False
  then have "xs[i := f (xs ! i)] = xs" by (simp add: list_update_beyond)
  then show ?thesis by simp
qed

lemma id_update_this:
  assumes "\<And>x. peerConnectionId (f x) = peerConnectionId x"
  shows "peerConnectionId (heap (update_this this f w) ! r) = peerConnectionId (heap w ! r)"
  unfolding update_this_def using assms by (simp add: nth_update_field)

lemma heap_dispatchEvent: "heap (dispatchEvent this e w) = heap w"
  by (simp add: dispatchEvent_def)

lemma emitter_dispatchEvent: "emitter (dispatchEvent this e w) = emitter w"
  by (simp add: dispatchEvent_def)

lemma emitter_update_this: "emitter (update_this this f w) = emitter w"
  by (simp add: update_this_def)

lemma dispatched_update_this: "dispatched (update_this this f w) = dispatched w"
  by (simp add: update_this_def)

lemma id_unregisterEvents:
  "peerConnectionId (heap (unregisterEvents this w) ! r) = peerConnectionId (heap w ! r)"
proof -
  have "peerConnectionId (heap (unregisterEvents this w) ! r) =
        peerConnectionId (heap (w\<lparr>emitter := foldl (\<lambda>em s. remove1 s em) (emitter w)
           (subscriptions (heap w ! this))\<rparr>) ! r)"
    unfolding unregisterEvents_def by (rule id_update_this) simp
  then show ?thesis by simp
qed

lemma listener_length: "length (heap (listener this ev w)) = length (heap w)"
  by (cases ev)
     (simp_all add: update_this_def dispatchEvent_def unregisterEvents_def Let_def
        split: option.splits)

lemma listener_other:
  "r \<noteq> this \<Longrightarrow> heap (listener this ev w) ! r = heap w ! r"
  by (cases ev)
     (simp_all add: update_this_def dispatchEvent_def unregisterEvents_def Let_def
        split: option.splits)

lemma listener_dispatched_other:
  "r \<noteq> this \<Longrightarrow> dispatched_to r (listener this ev w) = dispatched_to r w"
  by (cases ev)
     (simp_all add: dispatched_to_def update_this_def dispatchEvent_def unregisterEvents_def Let_def
        split: option.splits)

lemma listener_emitter_subset: "set (emitter (listener this ev w)) \<subseteq> set (emitter w)"
  by (cases ev)
     (simp_all add: update_this_def dispatchEvent_def unregisterEvents_def Let_def
        unsubscribe_subset split: option.splits)

lemma listener_not_mine:
  "ev_id ev \<noteq> peerConnectionId (heap w ! this) \<Longrightarrow> listener this ev w = w"
  by (cases ev) simp_all

lemma listener_id:
  "peerConnectionId (heap (listener this ev w) ! r) = peerConnectionId (heap w ! r)"
  by (cases ev)
     (simp_all add: Let_def id_update_this id_unregisterEvents heap_dispatchEvent
        split: option.splits)

lemma deliver_length: "length (heap (deliver ss ev w)) = length (heap w)"
  by (induction ss arbitrary: w) (simp_all add: listener_length)

lemma deliver_id:
  "peerConnectionId (heap (deliver ss ev w) ! r) = peerConnectionId (heap w ! r)"
  by (induction ss arbitrary: w) (simp_all add: listener_id)

lemma deliver_emitter_subset: "set (emitter (deliver ss ev w)) \<subseteq> set (emitter w)"
proof (induction ss arbitrary: w)
  case Nil
  show ?case by simp
next
  case (Cons s ss)
  let ?w' = "if s \<in> set (emitter w) then listener (listener_this s) ev w else w"
  have "set (emitter (deliver ss ev ?w')) \<subseteq> set (emitter ?w')" by (rule Cons.IH)
  also have "\<dots> \<subseteq> set (emitter w)" using listener_emitter_subset by simp
  finally show ?case by simp
qed

lemma listener_view_not_mine:
  "ev_id ev \<noteq> peerConnectionId (heap w ! r) \<Longrightarrow>
   heap (listener this ev w) ! r = heap w ! r \<and>
   dispatched_to r (listener this ev w) = dispatched_to r w"
  by (cases "this = r")
     (simp_all add: listener_not_mine listener_other listener_dispatched_other)

lemma deliver_not_mine:
  "ev_id ev \<noteq> peerConnectionId (heap w ! r) \<Longrightarrow>
   heap (deliver ss ev w) ! r = heap w ! r \<and>
   dispatched_to r (deliver ss ev w) = dispatched_to r w"
proof (induction ss arbitrary: w)
  case Nil
  show ?case by simp
next
  case (Cons s ss)
  let ?w' = "if s \<in> set (emitter w) then listener (listener_this s) ev w else w"
  have same: "heap ?w' ! r = heap w ! r \<and> dispatched_to r ?w' = dispatched_to r w"
    using Cons.prems by (simp add: listener_view_not_mine)
  then have "ev_id ev \<noteq> peerConnectionId (heap ?w' ! r)" using Cons.prems by simp
  then have "heap (deliver ss ev ?w') ! r = heap ?w' ! r \<and>
             dispatched_to r (deliver ss ev ?w') = dispatched_to r ?w'"
    by (rule Cons.IH)
  with same show ?case by simp
qed

lemma listening_empty_iff:
  "listening r w = [] \<longleftrightarrow> (\<forall>s \<in> set (emitter w). listener_this s \<noteq> r)"
  by (simp add: listening_def filter_empty_conv)

lemma listening_empty_mono:
  "set (emitter w') \<subseteq> set (emitter w) \<Longrightarrow> listening r w = [] \<Longrightarrow> listening r w' = []"
  by (auto simp: listening_empty_iff)

lemma deliver_not_listening:
  "listening r w = [] \<Longrightarrow>
   heap (deliver ss ev w) ! r = heap w ! r \<and>
   dispatched_to r (deliver ss ev w) = dispatched_to r w \<and>
   listening r (deliver ss ev w) = []"
proof (induction ss arbitrary: w)
  case Nil
  then show ?case by simp
next
  case (Cons s ss)
  let ?w' = "if s \<in> set (emitter w) then listener (listener_this s) ev w else w"
  have other: "s \<in> set (emitter w) \<Longrightarrow> listener_this s \<noteq> r"
    using Cons.prems by (simp add: listening_empty_iff)
  have same: "heap ?w' ! r = heap w ! r \<and> dispatched_to r ?w' = dispatched_to r w"
    using other by (auto simp: listener_other listener_dispatched_other)
  have "set (emitter ?w') \<subseteq> set (emitter w)" using listener_emitter_subset by simp
  then have "listening r ?w' = []" using Cons.prems by (rule listening_empty_mono)
  then have "heap (deliver ss ev ?w') ! r = heap ?w' ! r \<and>
             dispatched_to r (deliver ss ev ?w') = dispatched_to r ?w' \<and>
             listening r (deliver ss ev ?w') = []"
    by (rule Cons.IH)
  with same show ?case by simp
qed

lemma emit_all_not_listening:
  "listening r w = [] \<Longrightarrow>
   heap (emit_all evs w) ! r = heap w ! r \<and>
   dispatched_to r (emit_all evs w) = dispatched_to r w \<and>
   listening r (emit_all evs w) = []"
proof (induction evs arbitrary: w)
  case Nil
  then show ?case by simp
next
  case (Cons ev evs)
  have one: "heap (emit ev w) ! r = heap w ! r \<and>
             dispatched_to r (emit ev w) = dispatched_to r w \<and>
             listening r (emit ev w) = []"
    unfolding emit_def using Cons.prems by (rule deliver_not_listening)
  then have "heap (emit_all evs (emit ev w)) ! r = heap (emit ev w) ! r \<and>
             dispatched_to r (emit_all evs (emit ev w)) = dispatched_to r (emit ev w) \<and>
             listening r (emit_all evs (emit ev w)) = []"
    using Cons.IH by blast
  with one show ?case by simp
qed

subsection \<open>Consistency is kept\<close>

lemma consistent_dispatchEvent: "consistent (dispatchEvent this e w) = consistent w"
  by (simp add: consistent_def dispatchEvent_def)

lemma subscriptions_update_this:
  assumes "\<And>x. subscriptions (f x) = subscriptions x"
  shows "subscriptions (heap (update_this this f w) ! r) = subscriptions (heap w ! r)"
  unfolding update_this_def using assms by (simp add: nth_update_field)

lemma consistent_update_this:
  assumes "\<And>x. subscriptions (f x) = subscriptions x"
  shows "consistent (update_this this f w) = consistent w"
proof -
  have "\<And>r. subscriptions (heap (update_this this f w) ! r) = subscriptions (heap w ! r)"
    using assms by (rule subscriptions_update_this)
  moreover have "length (heap (update_this this f w)) = length (heap w)"
    by (simp add: update_this_def)
  ultimately show ?thesis by (simp add: consistent_def emitter_update_this)
qed

lemma consistent_listening:
  "consistent w \<Longrightarrow> r < length (heap w) \<Longrightarrow> listening r w = subscriptions (heap w ! r)"
  by (simp add: consistent_def listening_def)

lemma emitter_unregisterEvents:
  assumes "consistent w" and "this < length (heap w)"
  shows "emitter (unregisterEvents this w) = filter (\<lambda>s. listener_this s \<noteq> this) (emitter w)"
proof -
  have d: "distinct (emitter w)" using assms by (simp add: consistent_def)
  have subs: "subscriptions (heap w ! this) = filter (\<lambda>s. listener_this s = this) (emitter w)"
    using assms by (simp add: consistent_def)
  have "emitter (unregisterEvents this w) =
        foldl (\<lambda>em s. remove1 s em) (emitter w) (subscriptions (heap w ! this))"
    by (simp add: unregisterEvents_def update_this_def)
  also have "\<dots> = filter (\<lambda>s. s \<notin> set (subscriptions (heap w ! this))) (emitter w)"
    using d by (rule unsubscribe_filter)
  also have "\<dots> = filter (\<lambda>s. listener_this s \<noteq> this) (emitter w)"
    by (rule filter_cong) (simp_all add: subs)
  finally show ?thesis .
qed

lemma heap_unregisterEvents:
  "heap (unregisterEvents this w) = (heap w)[this := (heap w ! this)\<lparr>subscriptions := []\<rparr>]"
  by (simp add: unregisterEvents_def update_this_def)

lemma consistent_unregisterEvents:
  assumes "consistent w" and "this < length (heap w)"
  shows "consistent (unregisterEvents this w)"
proof -
  let ?w' = "unregisterEvents this w"
  have em: "emitter ?w' = filter (\<lambda>s. listener_this s \<noteq> this) (emitter w)"
    using assms by (rule emitter_unregisterEvents)
  have len: "length (heap ?w') = length (heap w)" by (simp add: heap_unregisterEvents)
  have 1: "distinct (emitter ?w')" using assms(1) by (simp add: em consistent_def)
  have 2: "\<forall>s \<in> set (emitter ?w'). listener_this s < length (heap ?w')"
    using assms(1) by (simp add: em len consistent_def)
  have 3: "(subscriptions (heap ?w' ! r) = [] \<or> subscriptions (heap ?w' ! r) = all_subscriptions r) \<and>
           filter (\<lambda>s. listener_this s = r) (emitter ?w') = subscriptions (heap ?w' ! r)"
    if r: "r < length (heap ?w')" for r
  proof (cases "r = this")
    case True
    have "filter (\<lambda>s. listener_this s = this) (filter (\<lambda>s. listener_this s \<noteq> this) (emitter w)) = []"
      by (simp add: filter_empty_conv)
    then show ?thesis using True assms(2) by (simp add: em heap_unregisterEvents)
  next
    case False
    have "filter (\<lambda>s. listener_this s = r) (filter (\<lambda>s. listener_this s \<noteq> this) (emitter w)) =
          filter (\<lambda>s. listener_this s = r) (emitter w)"
      using False by (simp add: conj_commute) (metis (mono_tags, lifting) filter_cong)
    then show ?thesis using False r assms(1) by (simp add: em len heap_unregisterEvents consistent_def)
  qed
  show ?thesis unfolding consistent_def using 1 2 3 by blast
qed

lemma consistent_listener:
  assumes "consistent w" and "this < length (heap w)"
  shows "consistent (listener this ev w)"
proof (cases ev)
  case (IceConnectionChanged i st)
  let ?w2 = "dispatchEvent this (RTCEvent ''iceconnectionstatechange'')
               (update_this this (\<lambda>pc. pc\<lparr>iceConnectionState := st\<rparr>) w)"
  have c: "consistent ?w2"
    using assms(1) by (simp add: consistent_dispatchEvent consistent_update_this)
  have "length (heap ?w2) = length (heap w)" by (simp add: dispatchEvent_def update_this_def)
  then have "consistent (unregisterEvents this ?w2)"
    using c assms(2) by (simp add: consistent_unregisterEvents)
  with c show ?thesis using IceConnectionChanged assms(1)
    by (cases "st = ''closed''") (simp_all add: Let_def)
qed (use assms(1) in \<open>simp_all add: Let_def consistent_dispatchEvent consistent_update_this
       split: option.splits\<close>)

lemma listening_listener_other:
  assumes "consistent w" and "this < length (heap w)" and "r \<noteq> this"
  shows "listening r (listener this ev w) = listening r w"
proof (cases ev)
  case (IceConnectionChanged i st)
  let ?w2 = "dispatchEvent this (RTCEvent ''iceconnectionstatechange'')
               (update_this this (\<lambda>pc. pc\<lparr>iceConnectionState := st\<rparr>) w)"
  have c: "consistent ?w2"
    using assms(1) by (simp add: consistent_dispatchEvent consistent_update_this)
  have l: "this < length (heap ?w2)" using assms(2) by (simp add: dispatchEvent_def update_this_def)
  have "emitter (unregisterEvents this ?w2) = filter (\<lambda>s. listener_this s \<noteq> this) (emitter ?w2)"
    using c l by (rule emitter_unregisterEvents)
  moreover have "emitter ?w2 = emitter w" by (simp add: emitter_dispatchEvent emitter_update_this)
  moreover have "filter (\<lambda>s. listener_this s = r) (filter (\<lambda>s. listener_this s \<noteq> this) (emitter w)) =
          filter (\<lambda>s. listener_this s = r) (emitter w)"
    using assms(3) by (simp add: conj_commute) (metis (mono_tags, lifting) filter_cong)
  ultimately have "listening r (unregisterEvents this ?w2) = listening r w"
    by (simp add: listening_def)
  moreover have "listening r ?w2 = listening r w"
    by (simp add: listening_def emitter_dispatchEvent emitter_update_this)
  ultimately show ?thesis using IceConnectionChanged
    by (cases "st = ''closed''") (simp_all add: Let_def)
qed (simp_all add: Let_def listening_def emitter_dispatchEvent emitter_update_this
       split: option.splits)

lemma listener_view_other:
  "consistent w \<Longrightarrow> this < length (heap w) \<Longrightarrow> r \<noteq> this \<Longrightarrow>
   view r (listener this ev w) = view r w"
  by (simp add: view_def listener_other listener_dispatched_other listening_listener_other)

lemma consistent_deliver: "consistent w \<Longrightarrow> consistent (deliver ss ev w)"
proof (induction ss arbitrary: w)
  case Nil
  then show ?case by simp
next
  case (Cons s ss)
  let ?w' = "if s \<in> set (emitter w) then listener (listener_this s) ev w else w"
  have "consistent ?w'"
  proof (cases "s \<in> set (emitter w)")
    case True
    then have "listener_this s < length (heap w)" using Cons.prems by (simp add: consistent_def)
    then show ?thesis using True Cons.prems by (simp add: consistent_listener)
  next
    case False
    then show ?thesis using Cons.prems by simp
  qed
  then have "consistent (deliver ss ev ?w')" by (rule Cons.IH)
  then show ?case by simp
qed

lemma consistent_emit: "consistent w \<Longrightarrow> consistent (emit ev w)"
  by (simp add: emit_def consistent_deliver)

lemma consistent_emit_all: "consistent w \<Longrightarrow> consistent (emit_all evs w)"
  by (induction evs arbitrary: w) (simp_all add: consistent_emit)

lemma emit_length: "length (heap (emit ev w)) = length (heap w)"
  by (simp add: emit_def deliver_length)

lemma emit_id: "peerConnectionId (heap (emit ev w) ! r) = peerConnectionId (heap w ! r)"
  by (simp add: emit_def deliver_id)

lemma deliver_one_step:
  assumes "consistent w"
  shows "consistent (if s \<in> set (emitter w) then listener (listener_this s) ev w else w)"
    and "length (heap (if s \<in> set (emitter w) then listener (listener_this s) ev w else w)) =
         length (heap w)"
    and "listener_this s \<noteq> r \<Longrightarrow>
         view r (if s \<in> set (emitter w) then listener (listener_this s) ev w else w) = view r w"
proof -
  have valid: "s \<in> set (emitter w) \<Longrightarrow> listener_this s < length (heap w)"
    using assms(1) by (simp add: consistent_def)
  show "consistent (if s \<in> set (emitter w) then listener (listener_this s) ev w else w)"
    using assms(1) valid by (simp add: consistent_listener)
  show "length (heap (if s \<in> set (emitter w) then listener (listener_this s) ev w else w)) =
        length (heap w)"
    by (simp add: listener_length)
  show "view r (if s \<in> set (emitter w) then listener (listener_this s) ev w else w) = view r w"
    if "listener_this s \<noteq> r"
    using that assms(1) valid by (simp add: listener_view_other)
qed

lemma deliver_view_other:
  "consistent w \<Longrightarrow> \<forall>s \<in> set ss. listener_this s \<noteq> r \<Longrightarrow>
   view r (deliver ss ev w) = view r w"
proof (induction ss arbitrary: w)
  case Nil
  then show ?case by simp
next
  case (Cons s ss)
  let ?w' = "if s \<in> set (emitter w) then listener (listener_this s) ev w else w"
  have c: "consistent ?w'" using Cons.prems(1) by (rule deliver_one_step)
  have "listener_this s \<noteq> r" using Cons.prems(2) by simp
  with Cons.prems(1) have v: "view r ?w' = view r w" by (rule deliver_one_step)
  have "\<forall>s \<in> set ss. listener_this s \<noteq> r" using Cons.prems(2) by simp
  with c have "view r (deliver ss ev ?w') = view r ?w'" by (rule Cons.IH)
  with v show ?case by simp
qed

lemma deliver_active:
  "consistent w \<Longrightarrow> filter (\<lambda>s. listener_this s = r) ss = [sr] \<Longrightarrow> sr \<in> set (emitter w) \<Longrightarrow>
   \<exists>w0. consistent w0 \<and> length (heap w0) = length (heap w) \<and> view r w0 = view r w \<and>
         view r (deliver ss ev w) = view r (listener r ev w0)"
proof (induction ss arbitrary: w)
  case Nil
  then show ?case by simp
next
  case (Cons s ss)
  let ?w' = "if s \<in> set (emitter w) then listener (listener_this s) ev w else w"
  have c: "consistent ?w'" using Cons.prems(1) by (rule deliver_one_step)
  have len: "length (heap ?w') = length (heap w)" using Cons.prems(1) by (rule deliver_one_step)
  show ?case
  proof (cases "listener_this s = r")
    case True
    then have s: "s = sr" and rest: "filter (\<lambda>s. listener_this s = r) ss = []"
      using Cons.prems(2) by simp_all
    have w': "?w' = listener r ev w" using s True Cons.prems(3) by simp
    have "\<forall>s \<in> set ss. listener_this s \<noteq> r" using rest by (simp add: filter_empty_conv)
    with c have "view r (deliver ss ev ?w') = view r ?w'" by (rule deliver_view_other)
    then have "view r (deliver (s # ss) ev w) = view r (listener r ev w)" using w' by simp
    with Cons.prems(1) show ?thesis by blast
  next
    case False
    with Cons.prems(1) have v: "view r ?w' = view r w" by (rule deliver_one_step)
    have f: "filter (\<lambda>s. listener_this s = r) ss = [sr]" using False Cons.prems(2) by simp
    have "sr \<in> set (filter (\<lambda>s. listener_this s = r) ss)" using f by simp
    then have "listener_this sr = r" by simp
    then have "sr \<in> set (listening r w)" using Cons.prems(3) by (simp add: listening_def)
    then have "sr \<in> set (listening r ?w')" using v by (simp add: view_def)
    then have "sr \<in> set (emitter ?w')" by (simp add: listening_def)
    with c f have "\<exists>w0. consistent w0 \<and> length (heap w0) = length (heap ?w') \<and>
        view r w0 = view r ?w' \<and> view r (deliver ss ev ?w') = view r (listener r ev w0)"
      by (rule Cons.IH)
    then obtain w0 where "consistent w0" and "length (heap w0) = length (heap ?w')"
      and "view r w0 = view r ?w'" and "view r (deliver ss ev ?w') = view r (listener r ev w0)"
      by blast
    then have "consistent w0 \<and> length (heap w0) = length (heap w) \<and> view r w0 = view r w \<and>
         view r (deliver (s # ss) ev w) = view r (listener r ev w0)"
      using len v by simp
    then show ?thesis by blast
  qed
qed

lemma filter_all_subscriptions:
  "filter (\<lambda>s. eventName s = n) (all_subscriptions r) = [\<lparr>eventName = n, listener_this = r\<rparr>]"
  by (cases n) (simp_all add: all_subscriptions_def event_names_def)

lemma emit_active:
  assumes "consistent w" and "r < length (heap w)"
    and "subscriptions (heap w ! r) = all_subscriptions r"
  shows "\<exists>w0. consistent w0 \<and> length (heap w0) = length (heap w) \<and> view r w0 = view r w \<and>
              view r (emit ev w) = view r (listener r ev w0)"
proof -
  let ?sr = "\<lparr>eventName = name_of ev, listener_this = r\<rparr>"
  let ?ss = "filter (\<lambda>s. eventName s = name_of ev) (emitter w)"
  have l: "filter (\<lambda>s. listener_this s = r) (emitter w) = all_subscriptions r"
    using assms by (simp add: consistent_def)
  have "filter (\<lambda>s. listener_this s = r) ?ss =
        filter (\<lambda>s. eventName s = name_of ev) (filter (\<lambda>s. listener_this s = r) (emitter w))"
    by (simp add: conj_commute)
  then have one: "filter (\<lambda>s. listener_this s = r) ?ss = [?sr]"
    by (simp only: l filter_all_subscriptions)
  have "?sr \<in> set (all_subscriptions r)"
    by (cases "name_of ev") (simp_all add: all_subscriptions_def event_names_def)
  then have "?sr \<in> set (filter (\<lambda>s. listener_this s = r) (emitter w))" by (simp only: l)
  then have "?sr \<in> set (emitter w)" by simp
  with assms(1) one show ?thesis unfolding emit_def by (rule deliver_active)
qed

lemma emit_closed_stops:
  assumes "consistent w" and "r < length (heap w)"
  shows "listening r (emit (IceConnectionChanged (peerConnectionId (heap w ! r)) ''closed'') w) = []"
proof -
  let ?ev = "IceConnectionChanged (peerConnectionId (heap w ! r)) ''closed''"
  have "subscriptions (heap w ! r) = [] \<or> subscriptions (heap w ! r) = all_subscriptions r"
    using assms by (simp add: consistent_def)
  then show ?thesis
  proof
    assume "subscriptions (heap w ! r) = []"
    then have "listening r w = []" using assms by (simp add: consistent_listening)
    then show ?thesis unfolding emit_def by (simp add: deliver_not_listening)
  next
    assume "subscriptions (heap w ! r) = all_subscriptions r"
    with assms obtain w0 where c0: "consistent w0" and len: "length (heap w0) = length (heap w)"
      and v0: "view r w0 = view r w" and v: "view r (emit ?ev w) = view r (listener r ?ev w0)"
      using emit_active by blast
    have r0: "r < length (heap w0)" using len assms(2) by simp
    have id0: "peerConnectionId (heap w0 ! r) = peerConnectionId (heap w ! r)"
      using v0 by (simp add: view_def)
    let ?w2 = "dispatchEvent r (RTCEvent ''iceconnectionstatechange'')
                 (update_this r (\<lambda>pc. pc\<lparr>iceConnectionState := ''closed''\<rparr>) w0)"
    have c2: "consistent ?w2"
      using c0 by (simp add: consistent_dispatchEvent consistent_update_this)
    have r2: "r < length (heap ?w2)" using r0 by (simp add: dispatchEvent_def update_this_def)
    have "emitter (unregisterEvents r ?w2) = filter (\<lambda>s. listener_this s \<noteq> r) (emitter ?w2)"
      using c2 r2 by (rule emitter_unregisterEvents)
    then have "listening r (unregisterEvents r ?w2) = []"
      by (simp add: listening_def filter_empty_conv)
    then have "listening r (listener r ?ev w0) = []" using id0 by (simp add: Let_def)
    then show ?thesis using v by (simp add: view_def)
  qed
qed

subsection \<open>One event, seen from a connection that listens\<close>

lemma emit_active_view:
  assumes "consistent w" and "r < length (heap w)"
    and "subscriptions (heap w ! r) = all_subscriptions r"
    and "\<And>w0. consistent w0 \<Longrightarrow> length (heap w0) = length (heap w) \<Longrightarrow> view r w0 = view r w \<Longrightarrow>
           view r (listener r ev w0) = V"
  shows "view r (emit ev w) = V"
proof -
  obtain w0 where "consistent w0" and "length (heap w0) = length (heap w)"
    and "view r w0 = view r w" and v: "view r (emit ev w) = view r (listener r ev w0)"
    using emit_active [OF assms(1-3)] by blast
  then have "view r (listener r ev w0) = V" using assms(4) by blast
  with v show ?thesis by simp
qed

lemma view_parts:
  "view r w0 = view r w \<Longrightarrow>
   heap w0 ! r = heap w ! r \<and> dispatched_to r w0 = dispatched_to r w \<and> listening r w0 = listening r w"
  by (simp add: view_def)

lemma emit_signaling:
  assumes "consistent w" and "r < length (heap w)"
    and "subscriptions (heap w ! r) = all_subscriptions r"
    and "peerConnectionId (heap w ! r) = i"
  shows "view r (emit (SignalingStateChanged i st) w) =
           ((heap w ! r)\<lparr>signalingState := st\<rparr>,
            dispatched_to r w @ [\<lparr>target = r, event = RTCEvent ''signalingstatechange'',
                                  observed = (heap w ! r)\<lparr>signalingState := st\<rparr>\<rparr>],
            listening r w)"
  using assms(1-3)
proof (rule emit_active_view)
  fix w0
  assume "length (heap w0) = length (heap w)" and "view r w0 = view r w"
  then show "view r (listener r (SignalingStateChanged i st) w0) =
           ((heap w ! r)\<lparr>signalingState := st\<rparr>,
            dispatched_to r w @ [\<lparr>target = r, event = RTCEvent ''signalingstatechange'',
                                  observed = (heap w ! r)\<lparr>signalingState := st\<rparr>\<rparr>],
            listening r w)"
    using assms(2,4)
    by (simp add: view_def dispatched_to_def listening_def update_this_def dispatchEvent_def Let_def)
qed

lemma emit_gathering:
  assumes "consistent w" and "r < length (heap w)"
    and "subscriptions (heap w ! r) = all_subscriptions r"
    and "peerConnectionId (heap w ! r) = i"
  shows "view r (emit (IceGatheringChanged i st) w) =
           ((heap w ! r)\<lparr>iceGatheringState := st\<rparr>,
            dispatched_to r w @ [\<lparr>target = r, event = RTCEvent ''icegatheringstatechange'',
                                  observed = (heap w ! r)\<lparr>iceGatheringState := st\<rparr>\<rparr>],
            listening r w)"
  using assms(1-3)
proof (rule emit_active_view)
  fix w0
  assume "length (heap w0) = length (heap w)" and "view r w0 = view r w"
  then show "view r (listener r (IceGatheringChanged i st) w0) =
           ((heap w ! r)\<lparr>iceGatheringState := st\<rparr>,
            dispatched_to r w @ [\<lparr>target = r, event = RTCEvent ''icegatheringstatechange'',
                                  observed = (heap w ! r)\<lparr>iceGatheringState := st\<rparr>\<rparr>],
            listening r w)"
    using assms(2,4)
    by (simp add: view_def dispatched_to_def listening_def update_this_def dispatchEvent_def Let_def)
qed

lemma emit_ice_open:
  assumes "consistent w" and "r < length (heap w)"
    and "subscriptions (heap w ! r) = all_subscriptions r"
    and "peerConnectionId (heap w ! r) = i" and "st \<noteq> ''closed''"
  shows "view r (emit (IceConnectionChanged i st) w) =
           ((heap w ! r)\<lparr>iceConnectionState := st\<rparr>,
            dispatched_to r w @ [\<lparr>target = r, event = RTCEvent ''iceconnectionstatechange'',
                                  observed = (heap w ! r)\<lparr>iceConnectionState := st\<rparr>\<rparr>],
            listening r w)"
  using assms(1-3)
proof (rule emit_active_view)
  fix w0
  assume "length (heap w0) = length (heap w)" and "view r w0 = view r w"
  then show "view r (listener r (IceConnectionChanged i st) w0) =
           ((heap w ! r)\<lparr>iceConnectionState := st\<rparr>,
            dispatched_to r w @ [\<lparr>target = r, event = RTCEvent ''iceconnectionstatechange'',
                                  observed = (heap w ! r)\<lparr>iceConnectionState := st\<rparr>\<rparr>],
            listening r w)"
    using assms(2,4,5)
    by (simp add: view_def dispatched_to_def listening_def update_this_def dispatchEvent_def Let_def)
qed

lemma emit_ice_closed:
  assumes "consistent w" and "r < length (heap w)"
    and "subscriptions (heap w ! r) = all_subscriptions r"
    and "peerConnectionId (heap w ! r) = i"
  shows "view r (emit (IceConnectionChanged i ''closed'') w) =
           ((heap w ! r)\<lparr>iceConnectionState := ''closed'', subscriptions := []\<rparr>,
            dispatched_to r w @ [\<lparr>target = r, event = RTCEvent ''iceconnectionstatechange'',
                                  observed = (heap w ! r)\<lparr>iceConnectionState := ''closed''\<rparr>\<rparr>],
            [])"
proof -
  have stop: "listening r (emit (IceConnectionChanged i ''closed'') w) = []"
    using emit_closed_stops [OF assms(1,2)] assms(4) by simp
  have "fst (view r (emit (IceConnectionChanged i ''closed'') w)) =
          (heap w ! r)\<lparr>iceConnectionState := ''closed'', subscriptions := []\<rparr> \<and>
        fst (snd (view r (emit (IceConnectionChanged i ''closed'') w))) =
          dispatched_to r w @ [\<lparr>target = r, event = RTCEvent ''iceconnectionstatechange'',
                                  observed = (heap w ! r)\<lparr>iceConnectionState := ''closed''\<rparr>\<rparr>]"
  proof -
    obtain w0 where "consistent w0" and len: "length (heap w0) = length (heap w)"
      and v0: "view r w0 = view r w"
      and v: "view r (emit (IceConnectionChanged i ''closed'') w) =
              view r (listener r (IceConnectionChanged i ''closed'') w0)"
      using emit_active [OF assms(1-3)] by blast
    show ?thesis
      using v0 len assms(2,4)
      by (simp add: v) (simp add: view_def dispatched_to_def update_this_def dispatchEvent_def
            unregisterEvents_def Let_def)
  qed
  with stop show ?thesis by (simp add: view_def)
qed

lemma stream_built:
  "foldl addTrack \<lparr>streamId = sid, tracks = xs\<rparr> ys = \<lparr>streamId = sid, tracks = xs @ ys\<rparr>"
  by (induction ys arbitrary: xs) (simp_all add: addTrack_def)

lemma emit_added:
  assumes "consistent w" and "r < length (heap w)"
    and "subscriptions (heap w ! r) = all_subscriptions r"
    and "peerConnectionId (heap w ! r) = i"
  shows "view r (emit (AddedStream i sid ts) w) =
           ((heap w ! r)\<lparr>remoteStreams := remoteStreams (heap w ! r) @
                [\<lparr>streamId = sid, tracks = map MediaStreamTrack ts\<rparr>]\<rparr>,
            dispatched_to r w @ [\<lparr>target = r,
                event = MediaStreamEvent ''addstream''
                  (Some \<lparr>streamId = sid, tracks = map MediaStreamTrack ts\<rparr>),
                observed = (heap w ! r)\<lparr>remoteStreams := remoteStreams (heap w ! r) @
                  [\<lparr>streamId = sid, tracks = map MediaStreamTrack ts\<rparr>]\<rparr>\<rparr>],
            listening r w)"
  using assms(1-3)
proof (rule emit_active_view)
  fix w0
  assume "length (heap w0) = length (heap w)" and "view r w0 = view r w"
  then show "view r (listener r (AddedStream i sid ts) w0) =
           ((heap w ! r)\<lparr>remoteStreams := remoteStreams (heap w ! r) @
                [\<lparr>streamId = sid, tracks = map MediaStreamTrack ts\<rparr>]\<rparr>,
            dispatched_to r w @ [\<lparr>target = r,
                event = MediaStreamEvent ''addstream''
                  (Some \<lparr>streamId = sid, tracks = map MediaStreamTrack ts\<rparr>),
                observed = (heap w ! r)\<lparr>remoteStreams := remoteStreams (heap w ! r) @
                  [\<lparr>streamId = sid, tracks = map MediaStreamTrack ts\<rparr>]\<rparr>\<rparr>],
            listening r w)"
    using assms(2,4)
    by (simp add: view_def dispatched_to_def listening_def update_this_def dispatchEvent_def
          Let_def MediaStream_new_def stream_built)
qed

lemma emit_removed_unknown:
  assumes "consistent w" and "r < length (heap w)"
    and "subscriptions (heap w ! r) = all_subscriptions r"
    and "peerConnectionId (heap w ! r) = i"
    and "sid \<notin> streamId ` set (remoteStreams (heap w ! r))"
  shows "view r (emit (RemovedStream i sid) w) =
           (heap w ! r,
            dispatched_to r w @ [\<lparr>target = r, event = MediaStreamEvent ''removestream'' None,
                                  observed = heap w ! r\<rparr>],
            listening r w)"
  using assms(1-3)
proof (rule emit_active_view)
  fix w0
  have none: "find (\<lambda>s. streamId s = sid) (remoteStreams (heap w ! r)) = None"
    using assms(5) by (auto simp: find_None_iff)
  assume "length (heap w0) = length (heap w)" and "view r w0 = view r w"
  then show "view r (listener r (RemovedStream i sid) w0) =
           (heap w ! r,
            dispatched_to r w @ [\<lparr>target = r, event = MediaStreamEvent ''removestream'' None,
                                  observed = heap w ! r\<rparr>],
            listening r w)"
    using assms(2,4) none
    by (simp add: view_def dispatched_to_def listening_def update_this_def dispatchEvent_def Let_def)
qed

subsection \<open>Sequences of events\<close>

lemma emit_all_inactive:
  assumes "consistent w" and "r < length (heap w)" and "subscriptions (heap w ! r) = []"
  shows "view r (emit_all evs w) = view r w"
proof -
  have "listening r w = []" using assms by (simp add: consistent_listening)
  then show ?thesis using emit_all_not_listening [of r w evs] by (simp add: view_def)
qed

lemma listener_subscriptions:
  "r < length (heap w0) \<Longrightarrow> peerConnectionId (heap w0 ! r) = i \<Longrightarrow>
   subscriptions (heap (listener r ev w0) ! r) =
     (if closes i ev then [] else subscriptions (heap w0 ! r))"
  by (cases ev)
     (simp_all add: closes_def update_this_def dispatchEvent_def unregisterEvents_def Let_def
        split: option.splits)

lemma listener_ice:
  "r < length (heap w0) \<Longrightarrow> peerConnectionId (heap w0 ! r) = i \<Longrightarrow>
   iceConnectionState (heap (listener r ev w0) ! r) =
     (case carried_ice i ev of None \<Rightarrow> iceConnectionState (heap w0 ! r) | Some v \<Rightarrow> v)"
  by (cases ev)
     (simp_all add: update_this_def dispatchEvent_def unregisterEvents_def Let_def
        split: option.splits)

lemma listener_signaling:
  "r < length (heap w0) \<Longrightarrow> peerConnectionId (heap w0 ! r) = i \<Longrightarrow>
   signalingState (heap (listener r ev w0) ! r) =
     (case carried_signaling i ev of None \<Rightarrow> signalingState (heap w0 ! r) | Some v \<Rightarrow> v)"
  by (cases ev)
     (simp_all add: update_this_def dispatchEvent_def unregisterEvents_def Let_def
        split: option.splits)

lemma listener_gathering:
  "r < length (heap w0) \<Longrightarrow> peerConnectionId (heap w0 ! r) = i \<Longrightarrow>
   iceGatheringState (heap (listener r ev w0) ! r) =
     (case carried_gathering i ev of None \<Rightarrow> iceGatheringState (heap w0 ! r) | Some v \<Rightarrow> v)"
  by (cases ev)
     (simp_all add: update_this_def dispatchEvent_def unregisterEvents_def Let_def
        split: option.splits)

lemma emit_all_latest:
  assumes field: "\<And>w0 ev. r < length (heap w0) \<Longrightarrow> peerConnectionId (heap w0 ! r) = i \<Longrightarrow>
      g (heap (listener r ev w0) ! r) = (case c ev of None \<Rightarrow> g (heap w0 ! r) | Some v \<Rightarrow> v)"
  shows "consistent w \<Longrightarrow> r < length (heap w) \<Longrightarrow> peerConnectionId (heap w ! r) = i \<Longrightarrow>
     subscriptions (heap w ! r) = all_subscriptions r \<Longrightarrow>
     g (heap (emit_all evs w) ! r) = latest c (g (heap w ! r)) (applied i evs)"
proof (induction evs arbitrary: w)
  case Nil
  show ?case by simp
next
  case (Cons ev evs)
  obtain w0 where len: "length (heap w0) = length (heap w)"
    and v0: "view r w0 = view r w" and v: "view r (emit ev w) = view r (listener r ev w0)"
    using emit_active [OF Cons.prems(1,2,4)] by blast
  have r0: "r < length (heap w0)" using len Cons.prems(2) by simp
  have pc0: "heap w0 ! r = heap w ! r" using v0 by (simp add: view_def)
  have id0: "peerConnectionId (heap w0 ! r) = i" using pc0 Cons.prems(3) by simp
  have pc1: "heap (emit ev w) ! r = heap (listener r ev w0) ! r" using v by (simp add: view_def)
  have g1: "g (heap (emit ev w) ! r) = (case c ev of None \<Rightarrow> g (heap w ! r) | Some v \<Rightarrow> v)"
    using field [OF r0 id0] pc0 pc1 by (simp split: option.splits)
  have s1: "subscriptions (heap (emit ev w) ! r) =
            (if closes i ev then [] else all_subscriptions r)"
    using listener_subscriptions [OF r0 id0] pc0 pc1 Cons.prems(4) by simp
  have c1: "consistent (emit ev w)" using Cons.prems(1) by (rule consistent_emit)
  have r1: "r < length (heap (emit ev w))" using Cons.prems(2) by (simp add: emit_length)
  have id1: "peerConnectionId (heap (emit ev w) ! r) = i" using Cons.prems(3) by (simp add: emit_id)
  show ?case
  proof (cases "closes i ev")
    case True
    then have "subscriptions (heap (emit ev w) ! r) = []" using s1 by simp
    with c1 r1 have "view r (emit_all evs (emit ev w)) = view r (emit ev w)"
      by (rule emit_all_inactive)
    then have "heap (emit_all evs (emit ev w)) ! r = heap (emit ev w) ! r" by (simp add: view_def)
    then show ?thesis using True g1 by simp
  next
    case False
    then have "subscriptions (heap (emit ev w) ! r) = all_subscriptions r" using s1 by simp
    with c1 r1 id1 have "g (heap (emit_all evs (emit ev w)) ! r) =
        latest c (g (heap (emit ev w) ! r)) (applied i evs)"
      by (rule Cons.IH)
    then show ?thesis using False g1 by simp
  qed
qed

subsection \<open>Constructing a connection\<close>

lemma all_subscriptions_this: "s \<in> set (all_subscriptions n) \<Longrightarrow> listener_this s = n"
  by (auto simp: all_subscriptions_def)

lemma distinct_all_subscriptions: "distinct (all_subscriptions n)"
  by (simp add: all_subscriptions_def event_names_def)

lemma heap_new:
  "heap (snd (RTCPeerConnection_new configuration w)) =
     heap w @ [\<lparr>localDescription = None, remoteDescription = None,
                signalingState = ''stable'', iceGatheringState = ''new'',
                iceConnectionState = ''new'', peerConnectionId = nextPeerConnectionId w,
                remoteStreams = [], subscriptions = all_subscriptions (length (heap w))\<rparr>]"
  by (simp add: RTCPeerConnection_new_def Let_def registerEvents_def update_this_def
        WebRTCModule_def)

lemma emitter_new:
  "emitter (snd (RTCPeerConnection_new configuration w)) =
     emitter w @ all_subscriptions (length (heap w))"
  by (simp add: RTCPeerConnection_new_def Let_def registerEvents_def update_this_def
        WebRTCModule_def)

lemma dispatched_new:
  "dispatched (snd (RTCPeerConnection_new configuration w)) = dispatched w"
  by (simp add: RTCPeerConnection_new_def Let_def registerEvents_def update_this_def
        WebRTCModule_def)

lemma consistent_init: "consistent (init stats)"
  by (simp add: consistent_def init_def)

lemma consistent_new:
  assumes "consistent w"
  shows "consistent (snd (RTCPeerConnection_new configuration w))"
proof -
  let ?n = "length (heap w)"
  let ?w' = "snd (RTCPeerConnection_new configuration w)"
  have old: "\<forall>s \<in> set (emitter w). listener_this s < ?n" using assms by (simp add: consistent_def)
  have new: "\<forall>s \<in> set (all_subscriptions ?n). listener_this s = ?n"
    by (simp add: all_subscriptions_this)
  have "set (emitter w) \<inter> set (all_subscriptions ?n) = {}" using old new by fastforce
  then have 1: "distinct (emitter ?w')"
    using assms by (simp add: emitter_new consistent_def distinct_all_subscriptions)
  have 2: "\<forall>s \<in> set (emitter ?w'). listener_this s < length (heap ?w')"
    using old new by (auto simp: emitter_new heap_new)
  have 3: "(subscriptions (heap ?w' ! r) = [] \<or> subscriptions (heap ?w' ! r) = all_subscriptions r) \<and>
           filter (\<lambda>s. listener_this s = r) (emitter ?w') = subscriptions (heap ?w' ! r)"
    if "r < length (heap ?w')" for r
  proof (cases "r < ?n")
    case True
    have "filter (\<lambda>s. listener_this s = r) (all_subscriptions ?n) = []"
      using True new by (auto simp: filter_empty_conv)
    then show ?thesis using True assms by (simp add: emitter_new heap_new nth_append consistent_def)
  next
    case False
    then have r: "r = ?n" using that by (simp add: heap_new)
    have a: "filter (\<lambda>s. listener_this s = ?n) (emitter w) = []"
      using old by (auto simp: filter_empty_conv)
    have b: "filter (\<lambda>s. listener_this s = ?n) (all_subscriptions ?n) = all_subscriptions ?n"
      using new by (simp add: filter_id_conv)
    show ?thesis using a b by (simp add: r emitter_new heap_new)
  qed
  show ?thesis unfolding consistent_def using 1 2 3 by blast
qed

lemma consistent_call_fn: "consistent w \<Longrightarrow> consistent (snd (call_fn f args w))"
  by (simp add: call_fn_def consistent_def split: option.splits)

lemma consistent_call_guarded: "consistent w \<Longrightarrow> consistent (snd (call_guarded f args w))"
  by (simp add: call_guarded_def consistent_def split: option.splits)

lemma consistent_invoke: "consistent w \<Longrightarrow> consistent (snd (invoke cb successful data w))"
  by (cases cb)
     (simp_all add: consistent_call_fn consistent_call_guarded consistent_update_this)

lemma consistent_step: "consistent w \<Longrightarrow> consistent (step a w)"
proof (cases a)
  case (New configuration)
  assume "consistent w"
  then show ?thesis using New by (simp add: consistent_new)
next
  case (Callback cb successful data)
  assume "consistent w"
  then show ?thesis using Callback by (simp add: consistent_invoke)
next
  case (Emit ev)
  assume "consistent w"
  then show ?thesis using Emit by (simp add: consistent_emit)
qed (simp_all add: consistent_def addStream_def removeStream_def createOffer_def createAnswer_def
       setLocalDescription_def setRemoteDescription_def addIceCandidate_def getStats_def
       close_def WebRTCModule_def console_warn_def)

lemma fresh_consistent: "consistent (snd (RTCPeerConnection_new configuration (init stats)))"
  by (rule consistent_new) (rule consistent_init)

lemma fresh_heap:
  "heap (snd (RTCPeerConnection_new configuration (init stats))) =
     [\<lparr>localDescription = None, remoteDescription = None,
       signalingState = ''stable'', iceGatheringState = ''new'',
       iceConnectionState = ''new'', peerConnectionId = 0,
       remoteStreams = [], subscriptions = all_subscriptions 0\<rparr>]"
  by (simp add: heap_new init_def)

lemma fresh_dispatched: "dispatched_to r (snd (RTCPeerConnection_new configuration (init stats))) = []"
  by (simp add: dispatched_to_def dispatched_new init_def)

lemma fresh_listening:
  "listening 0 (snd (RTCPeerConnection_new configuration (init stats))) = all_subscriptions 0"
  by (simp add: listening_def emitter_new init_def all_subscriptions_def)

lemma consistent_run: "consistent w \<Longrightarrow> consistent (run as w)"
  by (induction as arbitrary: w) (simp_all add: consistent_step)

lemma reachable_consistent: "consistent (run as (init stats))"
  by (rule consistent_run) (rule consistent_init)

subsection \<open>Once nothing is registered for a connection\<close>

lemma invoke_frame:
  "emitter (snd (invoke cb successful data w)) = emitter w \<and>
   dispatched (snd (invoke cb successful data w)) = dispatched w \<and>
   length (heap (snd (invoke cb successful data w))) = length (heap w)"
  by (cases cb) (simp_all add: call_fn_def call_guarded_def update_this_def split: option.splits)

lemma step_not_listening:
  assumes "r < length (heap w)" and "listening r w = []"
  shows "listening r (step a w) = [] \<and> dispatched_to r (step a w) = dispatched_to r w \<and>
         r < length (heap (step a w))"
proof (cases a)
  case (New configuration)
  have "filter (\<lambda>s. listener_this s = r) (all_subscriptions (length (heap w))) = []"
    using assms(1) by (auto simp: filter_empty_conv dest: all_subscriptions_this)
  then show ?thesis
    using New assms by (simp add: listening_def dispatched_to_def emitter_new dispatched_new heap_new)
next
  case (Callback cb successful data)
  then show ?thesis using assms invoke_frame [of cb successful data w]
    by (simp add: listening_def dispatched_to_def)
next
  case (Emit ev)
  then show ?thesis using assms deliver_not_listening [of r w]
    by (simp add: emit_def deliver_length)
qed (use assms in \<open>simp_all add: listening_def dispatched_to_def addStream_def removeStream_def
       createOffer_def createAnswer_def setLocalDescription_def setRemoteDescription_def
       addIceCandidate_def getStats_def close_def WebRTCModule_def console_warn_def\<close>)

lemma run_not_listening:
  "r < length (heap w) \<Longrightarrow> listening r w = [] \<Longrightarrow>
   listening r (run as w) = [] \<and> dispatched_to r (run as w) = dispatched_to r w"
proof (induction as arbitrary: w)
  case Nil
  then show ?case by simp
next
  case (Cons a as)
  have one: "listening r (step a w) = [] \<and> dispatched_to r (step a w) = dispatched_to r w \<and>
         r < length (heap (step a w))"
    using Cons.prems by (rule step_not_listening)
  then have "listening r (run as (step a w)) = [] \<and>
             dispatched_to r (run as (step a w)) = dispatched_to r (step a w)"
    using Cons.IH by blast
  with one show ?case by simp
qed


subsection \<open>What changes the ICE connection state\<close>

lemma carried_ice_Some: "carried_ice i ev = Some v \<Longrightarrow> ev = IceConnectionChanged i v"
  by (cases ev) (simp_all split: if_splits)

lemma listener_beyond: "length (heap w) \<le> this \<Longrightarrow> heap (listener this ev w) = heap w"
  by (cases ev)
     (simp_all add: update_this_def dispatchEvent_def unregisterEvents_def Let_def
        list_update_beyond split: option.splits)

lemma listener_ice_only:
  "iceConnectionState (heap (listener this ev w) ! r) = iceConnectionState (heap w ! r) \<or>
   (\<exists>st. ev = IceConnectionChanged (peerConnectionId (heap w ! r)) st \<and>
         iceConnectionState (heap (listener this ev w) ! r) = st)"
proof (cases "this = r")
  case False
  then show ?thesis by (simp add: listener_other)
next
  case True
  show ?thesis
  proof (cases "r < length (heap w)")
    case False
    then show ?thesis using True by (simp add: listener_beyond)
  next
    case valid: True
    have ice: "iceConnectionState (heap (listener r ev w) ! r) =
       (case carried_ice (peerConnectionId (heap w ! r)) ev of
          None \<Rightarrow> iceConnectionState (heap w ! r) | Some v \<Rightarrow> v)"
      using valid by (rule listener_ice) simp
    show ?thesis
    proof (cases "carried_ice (peerConnectionId (heap w ! r)) ev")
      case None
      then show ?thesis using ice True by simp
    next
      case (Some v)
      then have "ev = IceConnectionChanged (peerConnectionId (heap w ! r)) v"
        by (rule carried_ice_Some)
      then show ?thesis using ice Some True by simp
    qed
  qed
qed

lemma deliver_ice_only:
  "iceConnectionState (heap (deliver ss ev w) ! r) = iceConnectionState (heap w ! r) \<or>
   (\<exists>st. ev = IceConnectionChanged (peerConnectionId (heap w ! r)) st \<and>
         iceConnectionState (heap (deliver ss ev w) ! r) = st)"
proof (induction ss arbitrary: w)
  case Nil
  show ?case by simp
next
  case (Cons s ss)
  let ?w' = "if s \<in> set (emitter w) then listener (listener_this s) ev w else w"
  have id: "peerConnectionId (heap ?w' ! r) = peerConnectionId (heap w ! r)"
    by (simp add: listener_id)
  have one: "iceConnectionState (heap ?w' ! r) = iceConnectionState (heap w ! r) \<or>
     (\<exists>st. ev = IceConnectionChanged (peerConnectionId (heap w ! r)) st \<and>
           iceConnectionState (heap ?w' ! r) = st)"
    using listener_ice_only [of "listener_this s" ev w r] by simp
  have "iceConnectionState (heap (deliver ss ev ?w') ! r) = iceConnectionState (heap ?w' ! r) \<or>
     (\<exists>st. ev = IceConnectionChanged (peerConnectionId (heap ?w' ! r)) st \<and>
           iceConnectionState (heap (deliver ss ev ?w') ! r) = st)"
    by (rule Cons.IH)
  then have rest: "iceConnectionState (heap (deliver (s # ss) ev w) ! r) = iceConnectionState (heap ?w' ! r) \<or>
     (\<exists>st. ev = IceConnectionChanged (peerConnectionId (heap w ! r)) st \<and>
           iceConnectionState (heap (deliver (s # ss) ev w) ! r) = st)"
    using id by simp
  from rest one show ?case by metis
qed

lemma invoke_ice:
  "iceConnectionState (heap (snd (invoke cb successful data w)) ! r) =
   iceConnectionState (heap w ! r)"
  by (cases cb)
     (simp_all add: call_fn_def call_guarded_def update_this_def nth_update_field
        split: option.splits)

lemma step_ice_only:
  assumes "r < length (heap w)"
  shows "iceConnectionState (heap (step a w) ! r) = iceConnectionState (heap w ! r) \<or>
   (\<exists>st. a = Emit (IceConnectionChanged (peerConnectionId (heap w ! r)) st) \<and>
         iceConnectionState (heap (step a w) ! r) = st)"
proof (cases a)
  case (New configuration)
  then show ?thesis using assms by (simp add: heap_new nth_append)
next
  case (Callback cb successful data)
  then show ?thesis by (simp add: invoke_ice)
next
  case (Emit ev)
  then show ?thesis using deliver_ice_only [of _ ev w r] by (simp add: emit_def)
qed (simp_all add: addStream_def removeStream_def createOffer_def createAnswer_def
       setLocalDescription_def setRemoteDescription_def addIceCandidate_def getStats_def
       close_def WebRTCModule_def console_warn_def)


subsection \<open>The three states follow the events\<close>

lemma emit_ice:
  assumes "consistent w" and "r < length (heap w)"
    and "subscriptions (heap w ! r) = all_subscriptions r"
    and "peerConnectionId (heap w ! r) = i"
  shows "iceConnectionState (heap (emit (IceConnectionChanged i st) w) ! r) = st \<and>
         dispatched_to r (emit (IceConnectionChanged i st) w) =
           dispatched_to r w @
             [\<lparr>target = r, event = RTCEvent ''iceconnectionstatechange'',
               observed = (heap w ! r)\<lparr>iceConnectionState := st\<rparr>\<rparr>]"
proof (cases "st = ''closed''")
  case True
  then show ?thesis using emit_ice_closed [OF assms] by (simp add: view_def)
next
  case False
  then show ?thesis using emit_ice_open [OF assms] by (simp add: view_def)
qed

section \<open>The claims\<close>

subsection \<open>Adding a stream twice\<close>

text \<open>
  Claim C1, as stated: two stream-added events with the same stream identity leave
  the Stream once, the second inserting and dispatching nothing. It fails: on a new
  connection two such events leave two remote streams of that identity and two
  \<open>addstream\<close> notifications.
\<close>

theorem same_stream_added_twice_counterexample:
  "map streamId (remoteStreams (heap (emit_all [AddedStream 0 ''s1'' [], AddedStream 0 ''s1'' []]
       (snd (RTCPeerConnection_new ''cfg'' (init False)))) ! 0)) = [''s1'', ''s1''] \<and>
   map event (dispatched (emit_all [AddedStream 0 ''s1'' [], AddedStream 0 ''s1'' []]
       (snd (RTCPeerConnection_new ''cfg'' (init False))))) =
     [MediaStreamEvent ''addstream'' (Some \<lparr>streamId = ''s1'', tracks = []\<rparr>),
      MediaStreamEvent ''addstream'' (Some \<lparr>streamId = ''s1'', tracks = []\<rparr>)]"
  by (simp add: emit_def RTCPeerConnection_new_def init_def registerEvents_def update_this_def
        WebRTCModule_def all_subscriptions_def event_names_def Let_def dispatchEvent_def
        MediaStream_new_def)

text \<open>
  Claim C1, amended. For a connection that listens, every stream-added event
  builds a new Stream from the identity and the tracks it carries, appends it to
  the remote streams and dispatches \<open>addstream\<close> with it, whether or not a Stream
  of that identity is there already: after two events with the same stream
  identity the remote streams end with two Streams of that identity and two
  \<open>addstream\<close> notifications have been dispatched, one for each.
\<close>

theorem same_stream_added_twice:
  assumes "consistent w" and "r < length (heap w)"
    and "subscriptions (heap w ! r) = all_subscriptions r"
    and "peerConnectionId (heap w ! r) = i"
  shows "remoteStreams (heap (emit_all [AddedStream i sid ts, AddedStream i sid ts'] w) ! r) =
           remoteStreams (heap w ! r) @
             [\<lparr>streamId = sid, tracks = map MediaStreamTrack ts\<rparr>,
              \<lparr>streamId = sid, tracks = map MediaStreamTrack ts'\<rparr>] \<and>
         map event (dispatched_to r (emit_all [AddedStream i sid ts, AddedStream i sid ts'] w)) =
           map event (dispatched_to r w) @
             [MediaStreamEvent ''addstream'' (Some \<lparr>streamId = sid, tracks = map MediaStreamTrack ts\<rparr>),
              MediaStreamEvent ''addstream'' (Some \<lparr>streamId = sid, tracks = map MediaStreamTrack ts'\<rparr>)]"
proof -
  let ?w1 = "emit (AddedStream i sid ts) w"
  have v1: "view r ?w1 =
           ((heap w ! r)\<lparr>remoteStreams := remoteStreams (heap w ! r) @
                [\<lparr>streamId = sid, tracks = map MediaStreamTrack ts\<rparr>]\<rparr>,
            dispatched_to r w @ [\<lparr>target = r,
                event = MediaStreamEvent ''addstream''
                  (Some \<lparr>streamId = sid, tracks = map MediaStreamTrack ts\<rparr>),
                observed = (heap w ! r)\<lparr>remoteStreams := remoteStreams (heap w ! r) @
                  [\<lparr>streamId = sid, tracks = map MediaStreamTrack ts\<rparr>]\<rparr>\<rparr>],
            listening r w)"
    using assms by (rule emit_added)
  have c1: "consistent ?w1" using assms(1) by (rule consistent_emit)
  have r1: "r < length (heap ?w1)" using assms(2) by (simp add: emit_length)
  have s1: "subscriptions (heap ?w1 ! r) = all_subscriptions r"
    using v1 assms(3) by (simp add: view_def)
  have i1: "peerConnectionId (heap ?w1 ! r) = i" using assms(4) by (simp add: emit_id)
  have v2: "view r (emit (AddedStream i sid ts') ?w1) =
           ((heap ?w1 ! r)\<lparr>remoteStreams := remoteStreams (heap ?w1 ! r) @
                [\<lparr>streamId = sid, tracks = map MediaStreamTrack ts'\<rparr>]\<rparr>,
            dispatched_to r ?w1 @ [\<lparr>target = r,
                event = MediaStreamEvent ''addstream''
                  (Some \<lparr>streamId = sid, tracks = map MediaStreamTrack ts'\<rparr>),
                observed = (heap ?w1 ! r)\<lparr>remoteStreams := remoteStreams (heap ?w1 ! r) @
                  [\<lparr>streamId = sid, tracks = map MediaStreamTrack ts'\<rparr>]\<rparr>\<rparr>],
            listening r ?w1)"
    using c1 r1 s1 i1 by (rule emit_added)
  have h1: "remoteStreams (heap ?w1 ! r) = remoteStreams (heap w ! r) @
                [\<lparr>streamId = sid, tracks = map MediaStreamTrack ts\<rparr>]"
    using v1 by (simp add: view_def)
  have d1: "map event (dispatched_to r ?w1) = map event (dispatched_to r w) @
      [MediaStreamEvent ''addstream'' (Some \<lparr>streamId = sid, tracks = map MediaStreamTrack ts\<rparr>)]"
    using v1 by (simp add: view_def)
  show ?thesis using v2 h1 d1 by (simp add: view_def)
qed

theorem same_stream_added_twice_witness:
  "consistent (snd (RTCPeerConnection_new ''cfg'' (init False))) \<and>
   0 < length (heap (snd (RTCPeerConnection_new ''cfg'' (init False)))) \<and>
   subscriptions (heap (snd (RTCPeerConnection_new ''cfg'' (init False))) ! 0) = all_subscriptions 0 \<and>
   peerConnectionId (heap (snd (RTCPeerConnection_new ''cfg'' (init False))) ! 0) = 0 \<and>
   remoteStreams (heap (emit_all [AddedStream 0 ''s1'' [], AddedStream 0 ''s1'' []]
       (snd (RTCPeerConnection_new ''cfg'' (init False)))) ! 0) =
     [\<lparr>streamId = ''s1'', tracks = []\<rparr>, \<lparr>streamId = ''s1'', tracks = []\<rparr>]"
proof -
  have c: "consistent (snd (RTCPeerConnection_new ''cfg'' (init False)))" by (rule fresh_consistent)
  have l: "0 < length (heap (snd (RTCPeerConnection_new ''cfg'' (init False))))"
    by (simp add: fresh_heap)
  have s: "subscriptions (heap (snd (RTCPeerConnection_new ''cfg'' (init False))) ! 0) = all_subscriptions 0"
    by (simp add: fresh_heap)
  have i: "peerConnectionId (heap (snd (RTCPeerConnection_new ''cfg'' (init False))) ! 0) = 0"
    by (simp add: fresh_heap)
  show ?thesis
    using c l s i same_stream_added_twice [OF c l s i, of "''s1''" "[]" "[]"]
    by (simp add: fresh_heap)
qed

subsection \<open>Setting the local description\<close>

text \<open>
  Claim C2. \<^verbatim>\<open>setLocalDescription(d)\<close> stores nothing itself: it hands the native
  module a callback that closes over \<open>d\<close>. When that callback is told of a success,
  \<open>localDescription\<close> of the connection is \<open>d\<close>, whatever data the engine sent
  along and whether or not a success continuation was given, and no other field and
  no other connection changes; when it is told of a failure no connection changes.
\<close>

theorem setLocalDescription_roundtrip:
  "this < length (heap w) \<Longrightarrow>
   setLocalDescription this d success failure constraints w =
     (None, w\<lparr>native_calls := native_calls w @
        [PeerConnectionSetLocalDescription (RTCSessionDescription_toJSON d)
           (peerConnectionId (heap w ! this)) (SetLocalDescriptionCb this d success failure)]\<rparr>) \<and>
   heap (snd (invoke (SetLocalDescriptionCb this d success failure) True data w)) =
     (heap w)[this := (heap w ! this)\<lparr>localDescription := Some d\<rparr>] \<and>
   localDescription (heap (snd (invoke (SetLocalDescriptionCb this d success failure) True data w)) ! this) =
     Some d \<and>
   heap (snd (invoke (SetLocalDescriptionCb this d success failure) False data w)) = heap w"
  by (simp add: setLocalDescription_def WebRTCModule_def call_fn_def update_this_def
        split: option.splits)

theorem setLocalDescription_roundtrip_witness:
  "(0::nat) < length (heap (snd (RTCPeerConnection_new ''cfg'' (init False)))) \<and>
   localDescription (heap (snd (invoke
       (SetLocalDescriptionCb 0 (RTCSessionDescription ''offer'') (Some 1) (Some 2)) True ''echo''
       (snd (RTCPeerConnection_new ''cfg'' (init False))))) ! 0) =
     Some (RTCSessionDescription ''offer'') \<and>
   localDescription (heap (snd (invoke
       (SetLocalDescriptionCb 0 (RTCSessionDescription ''offer'') (Some 1) (Some 2)) False ''error''
       (snd (RTCPeerConnection_new ''cfg'' (init False))))) ! 0) = None"
proof -
  have h: "(0::nat) < length (heap (snd (RTCPeerConnection_new ''cfg'' (init False))))"
    by (simp add: heap_new)
  have pc: "localDescription (heap (snd (RTCPeerConnection_new ''cfg'' (init False))) ! 0) = None"
    by (simp add: heap_new init_def)
  show ?thesis
    using h pc setLocalDescription_roundtrip [OF h, of "RTCSessionDescription ''offer''" "Some 1" "Some 2" "''c''" "''echo''"]
      setLocalDescription_roundtrip [OF h, of "RTCSessionDescription ''offer''" "Some 1" "Some 2" "''c''" "''error''"]
    by simp
qed

subsection \<open>After the closing event\<close>

text \<open>
  Claim C3. Once the event that reports the ICE connection state \<open>closed\<close> for a
  connection has been emitted, nothing is registered for that connection on the
  shared emitter any more. Whatever events are emitted afterwards, of any kind and
  for any identity, the connection keeps every field and nothing is dispatched to
  it; and whatever else happens afterwards (connections constructed, methods
  called, callbacks completed, events emitted), nothing is registered for it again
  and nothing is dispatched to it.
\<close>

theorem closed_is_final:
  assumes "consistent w" and "r < length (heap w)"
  shows "listening r (emit (IceConnectionChanged (peerConnectionId (heap w ! r)) ''closed'') w) = [] \<and>
         view r (emit_all evs (emit (IceConnectionChanged (peerConnectionId (heap w ! r)) ''closed'') w)) =
           view r (emit (IceConnectionChanged (peerConnectionId (heap w ! r)) ''closed'') w) \<and>
         listening r (run as (emit (IceConnectionChanged (peerConnectionId (heap w ! r)) ''closed'') w)) = [] \<and>
         dispatched_to r (run as (emit (IceConnectionChanged (peerConnectionId (heap w ! r)) ''closed'') w)) =
           dispatched_to r (emit (IceConnectionChanged (peerConnectionId (heap w ! r)) ''closed'') w)"
proof -
  let ?w1 = "emit (IceConnectionChanged (peerConnectionId (heap w ! r)) ''closed'') w"
  have stop: "listening r ?w1 = []" using assms by (rule emit_closed_stops)
  have r1: "r < length (heap ?w1)" using assms(2) by (simp add: emit_length)
  have "view r (emit_all evs ?w1) = view r ?w1"
    using emit_all_not_listening [OF stop, of evs] stop by (simp add: view_def)
  moreover have "listening r (run as ?w1) = [] \<and> dispatched_to r (run as ?w1) = dispatched_to r ?w1"
    using r1 stop by (rule run_not_listening)
  ultimately show ?thesis using stop by simp
qed

theorem closed_is_final_witness:
  "consistent (snd (RTCPeerConnection_new ''cfg'' (init False))) \<and>
   0 < length (heap (snd (RTCPeerConnection_new ''cfg'' (init False)))) \<and>
   view 0 (emit_all [SignalingStateChanged 0 ''have-local-offer'', AddedStream 0 ''s1'' []]
            (emit (IceConnectionChanged 0 ''closed'') (snd (RTCPeerConnection_new ''cfg'' (init False))))) =
     view 0 (emit (IceConnectionChanged 0 ''closed'') (snd (RTCPeerConnection_new ''cfg'' (init False)))) \<and>
   listening 0 (run [New ''cfg'', Emit (OnRenegotiationNeeded 0)]
            (emit (IceConnectionChanged 0 ''closed'') (snd (RTCPeerConnection_new ''cfg'' (init False))))) = []"
proof -
  have c: "consistent (snd (RTCPeerConnection_new ''cfg'' (init False)))" by (rule fresh_consistent)
  have l: "0 < length (heap (snd (RTCPeerConnection_new ''cfg'' (init False))))"
    by (simp add: fresh_heap)
  show ?thesis
    using c l closed_is_final [OF c l,
        of "[SignalingStateChanged 0 ''have-local-offer'', AddedStream 0 ''s1'' []]"
           "[New ''cfg'', Emit (OnRenegotiationNeeded 0)]"]
    by (simp add: fresh_heap)
qed

subsection \<open>The three states\<close>

text \<open>
  Claim C4. For a connection that listens, an ice-connection-changed, a
  signaling-state-changed or an ice-gathering-changed event with its identity
  writes the state it carries into the field of its kind, whatever the field held
  and whatever text arrives, and then dispatches the change notification of that
  kind, which finds the new value in the field. Over a sequence of events each of
  the three fields therefore ends with the value carried by the last event of its
  kind among those the connection applied, which are the events up to and
  including the one that reports the ICE connection state \<open>closed\<close>, and keeps
  its value when there is none.
\<close>

theorem state_follows_events:
  assumes "consistent w" and "r < length (heap w)"
    and "subscriptions (heap w ! r) = all_subscriptions r"
    and "peerConnectionId (heap w ! r) = i"
  shows "iceConnectionState (heap (emit (IceConnectionChanged i st) w) ! r) = st \<and>
         dispatched_to r (emit (IceConnectionChanged i st) w) =
           dispatched_to r w @
             [\<lparr>target = r, event = RTCEvent ''iceconnectionstatechange'',
               observed = (heap w ! r)\<lparr>iceConnectionState := st\<rparr>\<rparr>] \<and>
         heap (emit (SignalingStateChanged i st) w) ! r = (heap w ! r)\<lparr>signalingState := st\<rparr> \<and>
         dispatched_to r (emit (SignalingStateChanged i st) w) =
           dispatched_to r w @
             [\<lparr>target = r, event = RTCEvent ''signalingstatechange'',
               observed = (heap w ! r)\<lparr>signalingState := st\<rparr>\<rparr>] \<and>
         heap (emit (IceGatheringChanged i st) w) ! r = (heap w ! r)\<lparr>iceGatheringState := st\<rparr> \<and>
         dispatched_to r (emit (IceGatheringChanged i st) w) =
           dispatched_to r w @
             [\<lparr>target = r, event = RTCEvent ''icegatheringstatechange'',
               observed = (heap w ! r)\<lparr>iceGatheringState := st\<rparr>\<rparr>] \<and>
         iceConnectionState (heap (emit_all evs w) ! r) =
           latest (carried_ice i) (iceConnectionState (heap w ! r)) (applied i evs) \<and>
         signalingState (heap (emit_all evs w) ! r) =
           latest (carried_signaling i) (signalingState (heap w ! r)) (applied i evs) \<and>
         iceGatheringState (heap (emit_all evs w) ! r) =
           latest (carried_gathering i) (iceGatheringState (heap w ! r)) (applied i evs)"
proof -
  have ice: "iceConnectionState (heap (emit_all evs w) ! r) =
           latest (carried_ice i) (iceConnectionState (heap w ! r)) (applied i evs)"
    by (rule emit_all_latest [where g = iceConnectionState and c = "carried_ice i", OF _ assms(1,2,4,3)])
       (rule listener_ice)
  have sig: "signalingState (heap (emit_all evs w) ! r) =
           latest (carried_signaling i) (signalingState (heap w ! r)) (applied i evs)"
    by (rule emit_all_latest [where g = signalingState and c = "carried_signaling i", OF _ assms(1,2,4,3)])
       (rule listener_signaling)
  have gat: "iceGatheringState (heap (emit_all evs w) ! r) =
           latest (carried_gathering i) (iceGatheringState (heap w ! r)) (applied i evs)"
    by (rule emit_all_latest [where g = iceGatheringState and c = "carried_gathering i", OF _ assms(1,2,4,3)])
       (rule listener_gathering)
  show ?thesis
    using emit_ice [OF assms, of st] emit_signaling [OF assms, of st] emit_gathering [OF assms, of st]
      ice sig gat
    by (simp add: view_def)
qed

theorem state_follows_events_witness:
  "consistent (snd (RTCPeerConnection_new ''cfg'' (init False))) \<and>
   0 < length (heap (snd (RTCPeerConnection_new ''cfg'' (init False)))) \<and>
   subscriptions (heap (snd (RTCPeerConnection_new ''cfg'' (init False))) ! 0) = all_subscriptions 0 \<and>
   peerConnectionId (heap (snd (RTCPeerConnection_new ''cfg'' (init False))) ! 0) = 0 \<and>
   signalingState (heap (emit (SignalingStateChanged 0 ''no-such-state'')
      (snd (RTCPeerConnection_new ''cfg'' (init False)))) ! 0) = ''no-such-state'' \<and>
   iceConnectionState (heap (emit_all
      [SignalingStateChanged 0 ''have-local-offer'', IceConnectionChanged 0 ''checking'',
       SignalingStateChanged 7 ''closed'', SignalingStateChanged 0 ''stable'',
       IceConnectionChanged 0 ''closed'', IceGatheringChanged 0 ''complete'']
      (snd (RTCPeerConnection_new ''cfg'' (init False)))) ! 0) = ''closed'' \<and>
   signalingState (heap (emit_all
      [SignalingStateChanged 0 ''have-local-offer'', IceConnectionChanged 0 ''checking'',
       SignalingStateChanged 7 ''closed'', SignalingStateChanged 0 ''stable'',
       IceConnectionChanged 0 ''closed'', IceGatheringChanged 0 ''complete'']
      (snd (RTCPeerConnection_new ''cfg'' (init False)))) ! 0) = ''stable'' \<and>
   iceGatheringState (heap (emit_all
      [SignalingStateChanged 0 ''have-local-offer'', IceConnectionChanged 0 ''checking'',
       SignalingStateChanged 7 ''closed'', SignalingStateChanged 0 ''stable'',
       IceConnectionChanged 0 ''closed'', IceGatheringChanged 0 ''complete'']
      (snd (RTCPeerConnection_new ''cfg'' (init False)))) ! 0) = ''new''"
proof -
  have c: "consistent (snd (RTCPeerConnection_new ''cfg'' (init False)))" by (rule fresh_consistent)
  have l: "0 < length (heap (snd (RTCPeerConnection_new ''cfg'' (init False))))"
    by (simp add: fresh_heap)
  have s: "subscriptions (heap (snd (RTCPeerConnection_new ''cfg'' (init False))) ! 0) = all_subscriptions 0"
    by (simp add: fresh_heap)
  have i: "peerConnectionId (heap (snd (RTCPeerConnection_new ''cfg'' (init False))) ! 0) = 0"
    by (simp add: fresh_heap)
  have pc: "heap (snd (RTCPeerConnection_new ''cfg'' (init False))) ! 0 =
     \<lparr>localDescription = None, remoteDescription = None,
       signalingState = ''stable'', iceGatheringState = ''new'',
       iceConnectionState = ''new'', peerConnectionId = 0,
       remoteStreams = [], subscriptions = all_subscriptions 0\<rparr>"
    by (simp add: fresh_heap)
  show ?thesis
    using c l s i state_follows_events [OF c l s i, of "''no-such-state''"
      "[SignalingStateChanged 0 ''have-local-offer'', IceConnectionChanged 0 ''checking'',
       SignalingStateChanged 7 ''closed'', SignalingStateChanged 0 ''stable'',
       IceConnectionChanged 0 ''closed'', IceGatheringChanged 0 ''complete'']"]
    by (simp add: pc closes_def)
qed

subsection \<open>Removing a stream that is not there\<close>

text \<open>
  Claim C5. For a connection that listens, a stream-removed event whose stream
  identity is the identity of none of the remote streams dispatches one
  \<open>removestream\<close> to the connection, with no stream in it, and leaves the
  connection, its remote streams among the rest, as it was. The listener has no
  failing path: the emission returns a world.
\<close>

theorem unknown_stream_removed:
  assumes "consistent w" and "r < length (heap w)"
    and "subscriptions (heap w ! r) = all_subscriptions r"
    and "peerConnectionId (heap w ! r) = i"
    and "sid \<notin> streamId ` set (remoteStreams (heap w ! r))"
  shows "heap (emit (RemovedStream i sid) w) ! r = heap w ! r \<and>
         dispatched_to r (emit (RemovedStream i sid) w) =
           dispatched_to r w @
             [\<lparr>target = r, event = MediaStreamEvent ''removestream'' None,
               observed = heap w ! r\<rparr>]"
  using emit_removed_unknown [OF assms] by (simp add: view_def)

theorem unknown_stream_removed_witness:
  "consistent (snd (RTCPeerConnection_new ''cfg'' (init False))) \<and>
   0 < length (heap (snd (RTCPeerConnection_new ''cfg'' (init False)))) \<and>
   subscriptions (heap (snd (RTCPeerConnection_new ''cfg'' (init False))) ! 0) = all_subscriptions 0 \<and>
   peerConnectionId (heap (snd (RTCPeerConnection_new ''cfg'' (init False))) ! 0) = 0 \<and>
   ''s9'' \<notin> streamId ` set (remoteStreams (heap (snd (RTCPeerConnection_new ''cfg'' (init False))) ! 0)) \<and>
   remoteStreams (heap (emit (RemovedStream 0 ''s9'')
       (snd (RTCPeerConnection_new ''cfg'' (init False)))) ! 0) = [] \<and>
   map event (dispatched_to 0 (emit (RemovedStream 0 ''s9'')
       (snd (RTCPeerConnection_new ''cfg'' (init False))))) = [MediaStreamEvent ''removestream'' None]"
proof -
  have c: "consistent (snd (RTCPeerConnection_new ''cfg'' (init False)))" by (rule fresh_consistent)
  have l: "0 < length (heap (snd (RTCPeerConnection_new ''cfg'' (init False))))"
    by (simp add: fresh_heap)
  have s: "subscriptions (heap (snd (RTCPeerConnection_new ''cfg'' (init False))) ! 0) = all_subscriptions 0"
    by (simp add: fresh_heap)
  have i: "peerConnectionId (heap (snd (RTCPeerConnection_new ''cfg'' (init False))) ! 0) = 0"
    by (simp add: fresh_heap)
  have u: "''s9'' \<notin> streamId ` set (remoteStreams (heap (snd (RTCPeerConnection_new ''cfg'' (init False))) ! 0))"
    by (simp add: fresh_heap)
  show ?thesis
    using c l s i u unknown_stream_removed [OF c l s i u] by (simp add: fresh_dispatched fresh_heap)
qed

subsection \<open>Statistics on an engine without them\<close>

text \<open>
  Claim C6. When the native module has no \<^verbatim>\<open>peerConnectionGetStats\<close>, \<^verbatim>\<open>getStats\<close>
  returns normally and the world it leaves differs from the one it found by one
  more warning only: no call reaches the native module, no continuation is
  invoked, no connection changes.
\<close>

theorem getStats_unsupported:
  "\<not> hasGetStats w \<Longrightarrow>
   getStats this track success failure w = (None, w\<lparr>warnings := warnings w @ [getStats_warning]\<rparr>)"
  by (simp add: getStats_def console_warn_def)

theorem getStats_unsupported_witness:
  "\<not> hasGetStats (snd (RTCPeerConnection_new ''cfg'' (init False))) \<and>
   fst (getStats 0 None (Some 1) (Some 2) (snd (RTCPeerConnection_new ''cfg'' (init False)))) = None \<and>
   called (snd (getStats 0 None (Some 1) (Some 2) (snd (RTCPeerConnection_new ''cfg'' (init False))))) = [] \<and>
   native_calls (snd (getStats 0 None (Some 1) (Some 2) (snd (RTCPeerConnection_new ''cfg'' (init False))))) =
     [PeerConnectionInit ''cfg'' 0] \<and>
   warnings (snd (getStats 0 None (Some 1) (Some 2) (snd (RTCPeerConnection_new ''cfg'' (init False))))) =
     [getStats_warning]"
proof -
  have h: "\<not> hasGetStats (snd (RTCPeerConnection_new ''cfg'' (init False)))"
    by (simp add: RTCPeerConnection_new_def init_def registerEvents_def update_this_def
          WebRTCModule_def Let_def)
  show ?thesis
    using h getStats_unsupported [OF h, of 0 None "Some 1" "Some 2"]
    by (simp add: RTCPeerConnection_new_def init_def registerEvents_def update_this_def
          WebRTCModule_def Let_def)
qed

subsection \<open>Closing a connection\<close>

text \<open>
  Claim C7. \<^verbatim>\<open>close()\<close> returns normally after one call of
  \<^verbatim>\<open>peerConnectionClose\<close> with the identity of the connection, and leaves every
  connection, the emitter and the notifications as they were: the ICE connection
  state, the other two states, the descriptions and the remote streams are not
  touched. Of all that can happen, only the emission of an ice-connection-changed
  event with the identity of a connection changes the ICE connection state of
  that connection, and it changes it to the state the event carries; for a
  connection that listens the event carrying \<open>closed\<close> does make it \<open>closed\<close>.
\<close>

theorem close_only_requests:
  "close this w =
     (None, w\<lparr>native_calls := native_calls w @
                [PeerConnectionClose (peerConnectionId (heap w ! this))]\<rparr>) \<and>
   heap (snd (close this w)) = heap w \<and>
   emitter (snd (close this w)) = emitter w \<and>
   dispatched (snd (close this w)) = dispatched w \<and>
   (r < length (heap w) \<longrightarrow>
    iceConnectionState (heap (step a w) ! r) \<noteq> iceConnectionState (heap w ! r) \<longrightarrow>
    (\<exists>st. a = Emit (IceConnectionChanged (peerConnectionId (heap w ! r)) st) \<and>
          iceConnectionState (heap (step a w) ! r) = st)) \<and>
   (consistent w \<longrightarrow> r < length (heap w) \<longrightarrow>
    subscriptions (heap w ! r) = all_subscriptions r \<longrightarrow>
    iceConnectionState (heap (emit (IceConnectionChanged (peerConnectionId (heap w ! r)) ''closed'') w) ! r) =
      ''closed'')"
proof -
  have frame: "close this w =
     (None, w\<lparr>native_calls := native_calls w @
                [PeerConnectionClose (peerConnectionId (heap w ! this))]\<rparr>)"
    by (simp add: close_def WebRTCModule_def)
  have only: "r < length (heap w) \<longrightarrow>
    iceConnectionState (heap (step a w) ! r) \<noteq> iceConnectionState (heap w ! r) \<longrightarrow>
    (\<exists>st. a = Emit (IceConnectionChanged (peerConnectionId (heap w ! r)) st) \<and>
          iceConnectionState (heap (step a w) ! r) = st)"
    using step_ice_only [of r w a] by blast
  have closes: "consistent w \<longrightarrow> r < length (heap w) \<longrightarrow>
    subscriptions (heap w ! r) = all_subscriptions r \<longrightarrow>
    iceConnectionState (heap (emit (IceConnectionChanged (peerConnectionId (heap w ! r)) ''closed'') w) ! r) =
      ''closed''"
  proof (intro impI)
    assume "consistent w" and "r < length (heap w)"
      and "subscriptions (heap w ! r) = all_subscriptions r"
    then have "view r (emit (IceConnectionChanged (peerConnectionId (heap w ! r)) ''closed'') w) =
           ((heap w ! r)\<lparr>iceConnectionState := ''closed'', subscriptions := []\<rparr>,
            dispatched_to r w @ [\<lparr>target = r, event = RTCEvent ''iceconnectionstatechange'',
                                  observed = (heap w ! r)\<lparr>iceConnectionState := ''closed''\<rparr>\<rparr>],
            [])"
      by (rule emit_ice_closed) simp
    then show "iceConnectionState (heap (emit (IceConnectionChanged (peerConnectionId (heap w ! r)) ''closed'') w) ! r) =
      ''closed''"
      by (simp add: view_def)
  qed
  from frame only closes show ?thesis by simp
qed

theorem close_only_requests_witness:
  "consistent (snd (RTCPeerConnection_new ''cfg'' (init False))) \<and>
   0 < length (heap (snd (RTCPeerConnection_new ''cfg'' (init False)))) \<and>
   subscriptions (heap (snd (RTCPeerConnection_new ''cfg'' (init False))) ! 0) = all_subscriptions 0 \<and>
   iceConnectionState (heap (snd (close 0 (snd (RTCPeerConnection_new ''cfg'' (init False))))) ! 0) = ''new'' \<and>
   iceConnectionState (heap (step (Emit (IceConnectionChanged 0 ''closed''))
      (snd (RTCPeerConnection_new ''cfg'' (init False)))) ! 0) \<noteq>
     iceConnectionState (heap (snd (RTCPeerConnection_new ''cfg'' (init False))) ! 0) \<and>
   iceConnectionState (heap (step (Emit (IceConnectionChanged 0 ''closed''))
      (snd (RTCPeerConnection_new ''cfg'' (init False)))) ! 0) = ''closed''"
proof -
  have c: "consistent (snd (RTCPeerConnection_new ''cfg'' (init False)))" by (rule fresh_consistent)
  have l: "0 < length (heap (snd (RTCPeerConnection_new ''cfg'' (init False))))"
    by (simp add: fresh_heap)
  have s: "subscriptions (heap (snd (RTCPeerConnection_new ''cfg'' (init False))) ! 0) = all_subscriptions 0"
    by (simp add: fresh_heap)
  show ?thesis
    using c l s close_only_requests [of 0 "snd (RTCPeerConnection_new ''cfg'' (init False))" 0
        "Emit (IceConnectionChanged 0 ''closed'')"]
    by (simp add: fresh_heap)
qed

subsection \<open>Events of other connections\<close>

text \<open>
  Claim C8. An event whose identity differs from the identity of a connection
  leaves that connection as it was and dispatches nothing to it, whatever the kind
  of the event and whoever else listens on the shared emitter: the listener of the
  connection returns at once, and the listeners of the other connections do not
  touch it.
\<close>

theorem other_identity_ignored:
  "ev_id ev \<noteq> peerConnectionId (heap w ! r) \<Longrightarrow>
   listener r ev w = w \<and>
   heap (emit ev w) ! r = heap w ! r \<and>
   dispatched_to r (emit ev w) = dispatched_to r w"
  by (simp add: emit_def deliver_not_mine listener_not_mine)

theorem other_identity_ignored_witness:
  "ev_id (AddedStream 1 ''s1'' []) \<noteq>
     peerConnectionId (heap (snd (RTCPeerConnection_new ''b''
       (snd (RTCPeerConnection_new ''a'' (init False))))) ! 0) \<and>
   remoteStreams (heap (emit (AddedStream 1 ''s1'' []) (snd (RTCPeerConnection_new ''b''
       (snd (RTCPeerConnection_new ''a'' (init False)))))) ! 0) = [] \<and>
   dispatched_to 0 (emit (AddedStream 1 ''s1'' []) (snd (RTCPeerConnection_new ''b''
       (snd (RTCPeerConnection_new ''a'' (init False)))))) = [] \<and>
   remoteStreams (heap (emit (AddedStream 1 ''s1'' []) (snd (RTCPeerConnection_new ''b''
       (snd (RTCPeerConnection_new ''a'' (init False)))))) ! 1) =
     [\<lparr>streamId = ''s1'', tracks = []\<rparr>]"
proof -
  have pc: "heap (snd (RTCPeerConnection_new ''b''
       (snd (RTCPeerConnection_new ''a'' (init False))))) ! 0 =
     \<lparr>localDescription = None, remoteDescription = None,
       signalingState = ''stable'', iceGatheringState = ''new'',
       iceConnectionState = ''new'', peerConnectionId = 0,
       remoteStreams = [], subscriptions = all_subscriptions 0\<rparr>"
    by (simp add: heap_new init_def)
  have d: "dispatched_to 0 (snd (RTCPeerConnection_new ''b''
       (snd (RTCPeerConnection_new ''a'' (init False))))) = []"
    by (simp add: dispatched_to_def dispatched_new init_def)
  have h: "ev_id (AddedStream 1 ''s1'' []) \<noteq>
     peerConnectionId (heap (snd (RTCPeerConnection_new ''b''
       (snd (RTCPeerConnection_new ''a'' (init False))))) ! 0)"
    by (simp add: pc)
  have other: "remoteStreams (heap (emit (AddedStream 1 ''s1'' []) (snd (RTCPeerConnection_new ''b''
       (snd (RTCPeerConnection_new ''a'' (init False)))))) ! 1) =
     [\<lparr>streamId = ''s1'', tracks = []\<rparr>]"
    by (simp add: emit_def RTCPeerConnection_new_def init_def registerEvents_def update_this_def
          WebRTCModule_def all_subscriptions_def event_names_def Let_def dispatchEvent_def
          MediaStream_new_def)
  show ?thesis
    using h other other_identity_ignored [OF h] by (simp add: pc d)
qed

subsection \<open>The completion callbacks and the caller's continuations\<close>

text \<open>
  Claim C9. Each of \<^verbatim>\<open>createOffer\<close>, \<^verbatim>\<open>createAnswer\<close>,
  \<^verbatim>\<open>setLocalDescription\<close>, \<^verbatim>\<open>setRemoteDescription\<close>, \<^verbatim>\<open>addIceCandidate\<close> and
  (on an engine with statistics) \<^verbatim>\<open>getStats\<close> makes one call on the native module
  and hands it its own completion callback, closed over the continuations in the
  order the caller gave them. The callbacks of the first four call the success
  continuation on success and the failure continuation on failure without testing
  it: when the caller left it out the call is a TypeError (raised, for the two
  description setters, after the description was stored), and when it is there it is
  called once, with the description, with the failure data or with nothing, and
  the other continuation is not called. The callbacks of \<^verbatim>\<open>addIceCandidate\<close> and
  \<^verbatim>\<open>getStats\<close> test their continuation first: when it is there it is called once
  (the success one on success, the failure one on failure, the success one with
  the report), and when it was left out they return normally and change nothing.
\<close>

theorem omitted_continuations:
  "createOffer this success failure constraints w =
     (None, w\<lparr>native_calls := native_calls w @
        [PeerConnectionCreateOffer (peerConnectionId (heap w ! this))
           (CreateOfferCb success failure)]\<rparr>) \<and>
   createAnswer this success failure constraints w =
     (None, w\<lparr>native_calls := native_calls w @
        [PeerConnectionCreateAnswer (peerConnectionId (heap w ! this))
           (CreateAnswerCb success failure)]\<rparr>) \<and>
   setLocalDescription this d success failure constraints w =
     (None, w\<lparr>native_calls := native_calls w @
        [PeerConnectionSetLocalDescription (RTCSessionDescription_toJSON d)
           (peerConnectionId (heap w ! this)) (SetLocalDescriptionCb this d success failure)]\<rparr>) \<and>
   setRemoteDescription this d success failure w =
     (None, w\<lparr>native_calls := native_calls w @
        [PeerConnectionSetRemoteDescription (RTCSessionDescription_toJSON d)
           (peerConnectionId (heap w ! this)) (SetRemoteDescriptionCb this d success failure)]\<rparr>) \<and>
   addIceCandidate this candidate success failure w =
     (None, w\<lparr>native_calls := native_calls w @
        [PeerConnectionAddICECandidate (RTCIceCandidate_toJSON candidate)
           (peerConnectionId (heap w ! this)) (AddICECandidateCb success failure)]\<rparr>) \<and>
   (hasGetStats w \<longrightarrow>
    getStats this track success failure w =
      (None, w\<lparr>native_calls := native_calls w @
         [PeerConnectionGetStats (case track of None \<Rightarrow> MinusOne | Some t \<Rightarrow> TrackId (track_id t))
            (peerConnectionId (heap w ! this)) (GetStatsCb success)]\<rparr>)) \<and>
   invoke (CreateOfferCb None failure) True data w = (Some TypeError, w) \<and>
   invoke (CreateOfferCb success None) False data w = (Some TypeError, w) \<and>
   invoke (CreateAnswerCb None failure) True data w = (Some TypeError, w) \<and>
   invoke (CreateAnswerCb success None) False data w = (Some TypeError, w) \<and>
   invoke (SetLocalDescriptionCb this d None failure) True data w =
     (Some TypeError, update_this this (\<lambda>pc. pc\<lparr>localDescription := Some d\<rparr>) w) \<and>
   invoke (SetLocalDescriptionCb this d success None) False data w = (Some TypeError, w) \<and>
   invoke (SetRemoteDescriptionCb this d None failure) True data w =
     (Some TypeError, update_this this (\<lambda>pc. pc\<lparr>remoteDescription := Some d\<rparr>) w) \<and>
   invoke (SetRemoteDescriptionCb this d success None) False data w = (Some TypeError, w) \<and>
   invoke (CreateOfferCb (Some k) failure) True data w =
     (None, w\<lparr>called := called w @ [(k, [ArgDescription (RTCSessionDescription data)])]\<rparr>) \<and>
   invoke (CreateOfferCb success (Some k)) False data w =
     (None, w\<lparr>called := called w @ [(k, [ArgData data])]\<rparr>) \<and>
   invoke (CreateAnswerCb (Some k) failure) True data w =
     (None, w\<lparr>called := called w @ [(k, [ArgDescription (RTCSessionDescription data)])]\<rparr>) \<and>
   invoke (CreateAnswerCb success (Some k)) False data w =
     (None, w\<lparr>called := called w @ [(k, [ArgData data])]\<rparr>) \<and>
   invoke (SetLocalDescriptionCb this d (Some k) failure) True data w =
     (None, (update_this this (\<lambda>pc. pc\<lparr>localDescription := Some d\<rparr>) w)
              \<lparr>called := called w @ [(k, [])]\<rparr>) \<and>
   fst (invoke (SetLocalDescriptionCb this d (Some k) failure) True data w) = None \<and>
   called (snd (invoke (SetLocalDescriptionCb this d (Some k) failure) True data w)) =
     called w @ [(k, [])] \<and>
   invoke (SetLocalDescriptionCb this d success (Some k)) False data w =
     (None, w\<lparr>called := called w @ [(k, [ArgData data])]\<rparr>) \<and>
   invoke (SetRemoteDescriptionCb this d (Some k) failure) True data w =
     (None, (update_this this (\<lambda>pc. pc\<lparr>remoteDescription := Some d\<rparr>) w)
              \<lparr>called := called w @ [(k, [])]\<rparr>) \<and>
   fst (invoke (SetRemoteDescriptionCb this d (Some k) failure) True data w) = None \<and>
   called (snd (invoke (SetRemoteDescriptionCb this d (Some k) failure) True data w)) =
     called w @ [(k, [])] \<and>
   invoke (SetRemoteDescriptionCb this d success (Some k)) False data w =
     (None, w\<lparr>called := called w @ [(k, [ArgData data])]\<rparr>) \<and>
   invoke (AddICECandidateCb None failure) True data w = (None, w) \<and>
   invoke (AddICECandidateCb success None) False data w = (None, w) \<and>
   invoke (GetStatsCb None) successful data w = (None, w) \<and>
   invoke (AddICECandidateCb (Some k) failure) True data w =
     (None, w\<lparr>called := called w @ [(k, [])]\<rparr>) \<and>
   invoke (AddICECandidateCb success (Some k)) False data w =
     (None, w\<lparr>called := called w @ [(k, [])]\<rparr>) \<and>
   invoke (GetStatsCb (Some k)) successful data w =
     (None, w\<lparr>called := called w @ [(k, [ArgData data])]\<rparr>)"
proof -
  have methods:
    "createOffer this success failure constraints w =
       (None, w\<lparr>native_calls := native_calls w @
          [PeerConnectionCreateOffer (peerConnectionId (heap w ! this))
             (CreateOfferCb success failure)]\<rparr>)"
    "createAnswer this success failure constraints w =
       (None, w\<lparr>native_calls := native_calls w @
          [PeerConnectionCreateAnswer (peerConnectionId (heap w ! this))
             (CreateAnswerCb success failure)]\<rparr>)"
    "setLocalDescription this d success failure constraints w =
       (None, w\<lparr>native_calls := native_calls w @
          [PeerConnectionSetLocalDescription (RTCSessionDescription_toJSON d)
             (peerConnectionId (heap w ! this)) (SetLocalDescriptionCb this d success failure)]\<rparr>)"
    "setRemoteDescription this d success failure w =
       (None, w\<lparr>native_calls := native_calls w @
          [PeerConnectionSetRemoteDescription (RTCSessionDescription_toJSON d)
             (peerConnectionId (heap w ! this)) (SetRemoteDescriptionCb this d success failure)]\<rparr>)"
    "addIceCandidate this candidate success failure w =
       (None, w\<lparr>native_calls := native_calls w @
          [PeerConnectionAddICECandidate (RTCIceCandidate_toJSON candidate)
             (peerConnectionId (heap w ! this)) (AddICECandidateCb success failure)]\<rparr>)"
    by (simp_all add: createOffer_def createAnswer_def setLocalDescription_def
          setRemoteDescription_def addIceCandidate_def WebRTCModule_def)
  have stats: "hasGetStats w \<longrightarrow>
    getStats this track success failure w =
      (None, w\<lparr>native_calls := native_calls w @
         [PeerConnectionGetStats (case track of None \<Rightarrow> MinusOne | Some t \<Rightarrow> TrackId (track_id t))
            (peerConnectionId (heap w ! this)) (GetStatsCb success)]\<rparr>)"
    by (simp add: getStats_def WebRTCModule_def)
  have unguarded:
    "invoke (CreateOfferCb None failure) True data w = (Some TypeError, w)"
    "invoke (CreateOfferCb success None) False data w = (Some TypeError, w)"
    "invoke (CreateAnswerCb None failure) True data w = (Some TypeError, w)"
    "invoke (CreateAnswerCb success None) False data w = (Some TypeError, w)"
    "invoke (SetLocalDescriptionCb this d None failure) True data w =
       (Some TypeError, update_this this (\<lambda>pc. pc\<lparr>localDescription := Some d\<rparr>) w)"
    "invoke (SetLocalDescriptionCb this d success None) False data w = (Some TypeError, w)"
    "invoke (SetRemoteDescriptionCb this d None failure) True data w =
       (Some TypeError, update_this this (\<lambda>pc. pc\<lparr>remoteDescription := Some d\<rparr>) w)"
    "invoke (SetRemoteDescriptionCb this d success None) False data w = (Some TypeError, w)"
    by (simp_all add: call_fn_def)
  have given:
    "invoke (CreateOfferCb (Some k) failure) True data w =
       (None, w\<lparr>called := called w @ [(k, [ArgDescription (RTCSessionDescription data)])]\<rparr>)"
    "invoke (CreateOfferCb success (Some k)) False data w =
       (None, w\<lparr>called := called w @ [(k, [ArgData data])]\<rparr>)"
    "invoke (CreateAnswerCb (Some k) failure) True data w =
       (None, w\<lparr>called := called w @ [(k, [ArgDescription (RTCSessionDescription data)])]\<rparr>)"
    "invoke (CreateAnswerCb success (Some k)) False data w =
       (None, w\<lparr>called := called w @ [(k, [ArgData data])]\<rparr>)"
    "invoke (SetLocalDescriptionCb this d (Some k) failure) True data w =
       (None, (update_this this (\<lambda>pc. pc\<lparr>localDescription := Some d\<rparr>) w)
                \<lparr>called := called w @ [(k, [])]\<rparr>)"
    "invoke (SetLocalDescriptionCb this d success (Some k)) False data w =
       (None, w\<lparr>called := called w @ [(k, [ArgData data])]\<rparr>)"
    "invoke (SetRemoteDescriptionCb this d (Some k) failure) True data w =
       (None, (update_this this (\<lambda>pc. pc\<lparr>remoteDescription := Some d\<rparr>) w)
                \<lparr>called := called w @ [(k, [])]\<rparr>)"
    "invoke (SetRemoteDescriptionCb this d success (Some k)) False data w =
       (None, w\<lparr>called := called w @ [(k, [ArgData data])]\<rparr>)"
    by (simp_all add: call_fn_def update_this_def)
  have guarded:
    "invoke (AddICECandidateCb None failure) True data w = (None, w)"
    "invoke (AddICECandidateCb success None) False data w = (None, w)"
    "invoke (GetStatsCb None) successful data w = (None, w)"
    "invoke (AddICECandidateCb (Some k) failure) True data w =
       (None, w\<lparr>called := called w @ [(k, [])]\<rparr>)"
    "invoke (AddICECandidateCb success (Some k)) False data w =
       (None, w\<lparr>called := called w @ [(k, [])]\<rparr>)"
    "invoke (GetStatsCb (Some k)) successful data w =
       (None, w\<lparr>called := called w @ [(k, [ArgData data])]\<rparr>)"
    by (simp_all add: call_guarded_def)
  show ?thesis
    by (simp only: methods unguarded given guarded fst_conv snd_conv simp_thms)
       (simp add: stats update_this_def)
qed

theorem omitted_continuations_witness:
  "hasGetStats (snd (RTCPeerConnection_new ''cfg'' (init True))) \<and>
   native_calls (snd (getStats 0 (Some (MediaStreamTrack \<lparr>trackId = ''t1'', kind = ''audio''\<rparr>))
       (Some 1) None (snd (RTCPeerConnection_new ''cfg'' (init True))))) =
     [PeerConnectionInit ''cfg'' 0, PeerConnectionGetStats (TrackId ''t1'') 0 (GetStatsCb (Some 1))] \<and>
   native_calls (snd (createOffer 0 None (Some 2) ''c''
       (snd (RTCPeerConnection_new ''cfg'' (init True))))) =
     [PeerConnectionInit ''cfg'' 0, PeerConnectionCreateOffer 0 (CreateOfferCb None (Some 2))] \<and>
   fst (invoke (CreateOfferCb None (Some 2)) True ''sdp''
       (snd (RTCPeerConnection_new ''cfg'' (init True)))) = Some TypeError \<and>
   called (snd (invoke (GetStatsCb (Some 1)) True ''report''
       (snd (RTCPeerConnection_new ''cfg'' (init True))))) = [(1, [ArgData ''report''])]"
proof -
  have h: "hasGetStats (snd (RTCPeerConnection_new ''cfg'' (init True)))"
    by (simp add: RTCPeerConnection_new_def init_def registerEvents_def update_this_def
          WebRTCModule_def Let_def)
  have n: "native_calls (snd (RTCPeerConnection_new ''cfg'' (init True))) =
           [PeerConnectionInit ''cfg'' 0]"
    by (simp add: RTCPeerConnection_new_def init_def registerEvents_def update_this_def
          WebRTCModule_def Let_def)
  have c: "called (snd (RTCPeerConnection_new ''cfg'' (init True))) = []"
    by (simp add: RTCPeerConnection_new_def init_def registerEvents_def update_this_def
          WebRTCModule_def Let_def)
  show ?thesis
    using h omitted_continuations [of 0 None "Some 2" "''c''"
        "snd (RTCPeerConnection_new ''cfg'' (init True))"]
      omitted_continuations [of 0 "Some 1" None _
        "snd (RTCPeerConnection_new ''cfg'' (init True))" _ _
        "Some (MediaStreamTrack \<lparr>trackId = ''t1'', kind = ''audio''\<rparr>)" "''report''" 1 True]
      omitted_continuations [where failure = "Some 2" and data = "''sdp''"
        and w = "snd (RTCPeerConnection_new ''cfg'' (init True))"]
    by (simp add: n c fresh_heap)
qed

subsection \<open>The closing event itself\<close>

text \<open>
  Claim C10. For a connection that listens, the event that reports the ICE
  connection state \<open>closed\<close> is still delivered in full: the field is set to
  \<open>closed\<close>, and one \<open>iceconnectionstatechange\<close> is dispatched to the connection
  while it reads \<open>closed\<close> and still holds its seven handles. Only then are the
  handles removed: afterwards the connection holds none and nothing is registered
  for it.
\<close>

theorem closed_is_delivered:
  assumes "consistent w" and "r < length (heap w)"
    and "subscriptions (heap w ! r) = all_subscriptions r"
    and "peerConnectionId (heap w ! r) = i"
  shows "heap (emit (IceConnectionChanged i ''closed'') w) ! r =
           (heap w ! r)\<lparr>iceConnectionState := ''closed'', subscriptions := []\<rparr> \<and>
         dispatched_to r (emit (IceConnectionChanged i ''closed'') w) =
           dispatched_to r w @
             [\<lparr>target = r, event = RTCEvent ''iceconnectionstatechange'',
               observed = (heap w ! r)\<lparr>iceConnectionState := ''closed'',
                                        subscriptions := all_subscriptions r\<rparr>\<rparr>] \<and>
         listening r (emit (IceConnectionChanged i ''closed'') w) = []"
proof -
  have "(heap w ! r)\<lparr>iceConnectionState := ''closed'', subscriptions := all_subscriptions r\<rparr> =
        (heap w ! r)\<lparr>iceConnectionState := ''closed''\<rparr>"
    using assms(3) by simp
  then show ?thesis using emit_ice_closed [OF assms] by (simp add: view_def)
qed

theorem closed_is_delivered_witness:
  "consistent (snd (RTCPeerConnection_new ''cfg'' (init False))) \<and>
   0 < length (heap (snd (RTCPeerConnection_new ''cfg'' (init False)))) \<and>
   subscriptions (heap (snd (RTCPeerConnection_new ''cfg'' (init False))) ! 0) = all_subscriptions 0 \<and>
   peerConnectionId (heap (snd (RTCPeerConnection_new ''cfg'' (init False))) ! 0) = 0 \<and>
   iceConnectionState (heap (emit (IceConnectionChanged 0 ''closed'')
       (snd (RTCPeerConnection_new ''cfg'' (init False)))) ! 0) = ''closed'' \<and>
   map event (dispatched_to 0 (emit (IceConnectionChanged 0 ''closed'')
       (snd (RTCPeerConnection_new ''cfg'' (init False))))) = [RTCEvent ''iceconnectionstatechange''] \<and>
   listening 0 (emit (IceConnectionChanged 0 ''closed'')
       (snd (RTCPeerConnection_new ''cfg'' (init False)))) = []"
proof -
  have c: "consistent (snd (RTCPeerConnection_new ''cfg'' (init False)))" by (rule fresh_consistent)
  have l: "0 < length (heap (snd (RTCPeerConnection_new ''cfg'' (init False))))"
    by (simp add: fresh_heap)
  have s: "subscriptions (heap (snd (RTCPeerConnection_new ''cfg'' (init False))) ! 0) = all_subscriptions 0"
    by (simp add: fresh_heap)
  have i: "peerConnectionId (heap (snd (RTCPeerConnection_new ''cfg'' (init False))) ! 0) = 0"
    by (simp add: fresh_heap)
  show ?thesis
    using c l s i closed_is_delivered [OF c l s i] by (simp add: fresh_dispatched)
qed

end
